theory Spec2Isabelle
  imports Complex_Main "HOL-Library.Char_ord" "HOL-Library.List_Lexorder" "HOL-Library.Multiset"
begin

section \<open>Conventions of the embedding\<close>

text \<open>
  The program is Python. Its \<open>float\<close> values (prices, balances) are modelled as
  \<^typ>\<open>real\<close>: rounding and infinities are outside the model. NaN is modelled where
  the program produces it, in the stop levels of the stop engine and of the positions. A
  handler \<open>except Exception\<close> that can be reached is a branch of the model: a
  division by zero is tested before the division, and a collaborator that may raise
  (exchange gateway, database, indicator library) hands its outcome to the model as an
  input. Logging, notifications and the writes of trade records change nothing of the
  modelled state and are left out.
\<close>

text \<open>
  The outcome of a call that may raise (a task of the thread pool, a call to the exchange
  gateway): the value it returns, or an exception.
\<close>

datatype 'a outcome = Returned 'a | Raised

text \<open>
  A Python dictionary keeps the order of insertion and is modelled as an association
  list. \<open>d[k] = v\<close>: an existing key keeps its place, a new key goes to the end.
\<close>

fun dict_set :: "('k \<times> 'v) list \<Rightarrow> 'k \<Rightarrow> 'v \<Rightarrow> ('k \<times> 'v) list" where
  "dict_set [] k v = [(k, v)]"
| "dict_set ((k', v') # d) k v = (if k' = k then (k, v) # d else (k', v') # dict_set d k v)"

text \<open>\<open>del d[k]\<close>; the source deletes only keys that are present.\<close>

definition dict_del :: "('k \<times> 'v) list \<Rightarrow> 'k \<Rightarrow> ('k \<times> 'v) list" where
  "dict_del d k = filter (\<lambda>kv. fst kv \<noteq> k) d"

section \<open>Market-structure analyzer: \<open>SMCStrategy.calculate_smc_levels\<close>\<close>

text \<open>
  A row of price history is the list \<open>[timestamp, open, high, low, close, volume]\<close>
  the exchange gateway returns.
\<close>

type_synonym ohlcv_row = "real list"

text \<open>
  The function returns \<open>None\<close> on two paths that differ in what they log: the
  length guard logs the warning "insufficient data", the exception handler logs an
  error. The model keeps the two apart as error values.
\<close>

datatype smc_error = InsufficientData | AnalysisError

text \<open>
  Everything after the guard (data frame, indicators of the external indicator library,
  levels, market structure, signals, bias, confidence, the write to the database) is the
  parameter \<open>pipeline\<close>: it yields the assembled dictionary \<open>smc_data\<close>, or \<open>None\<close>
  when one of its steps raises.
\<close>

definition calculate_smc_levels ::
  "(string \<Rightarrow> ohlcv_row list \<Rightarrow> 'smc option) \<Rightarrow> string \<Rightarrow> ohlcv_row list \<Rightarrow> smc_error + 'smc" where
  "calculate_smc_levels pipeline symb ohlcv_data =
     (if ohlcv_data = [] \<or> length ohlcv_data < 100 then Inl InsufficientData
      else case pipeline symb ohlcv_data of
             None \<Rightarrow> Inl AnalysisError
           | Some smc_data \<Rightarrow> Inr smc_data)"

section \<open>Opportunity scanner: \<open>SMCScanner\<close>\<close>

text \<open>
  The dictionary built by \<open>analyze_trading_opportunity\<close>, with the keys that the scan
  and its log read. The key \<open>'symbol'\<close> is the field \<open>opp_symbol\<close>.
\<close>

record opportunity =
  opp_symbol :: string
  timeframe :: string
  signal_strength :: real
  trade_direction :: string
  risk_level :: string
  confidence :: real
  reward_risk_ratio :: real

text \<open>
  \<open>scan_single_pair\<close> returns \<open>None\<close> (no data, no structure, or an exception of
  its own), the empty dictionary (when \<open>analyze_trading_opportunity\<close> failed) or an
  opportunity. \<open>future.result(timeout=60)\<close> hands that value over or raises.
\<close>

datatype scan_result = NoResult | EmptyResult | Found opportunity

record scanner =
  max_concurrent_scans :: int
  min_confidence :: real
  is_scanning :: bool
  last_scan_time :: "string option"
  scan_results :: "(string \<times> opportunity) list"
  high_confidence_signals :: "opportunity list"

text \<open>The dictionary that \<open>scan_all_pairs\<close> returns.\<close>

record scan_report =
  total_scanned :: nat
  successful_scans :: nat
  report_high_confidence_signals :: "opportunity list"
  scan_time :: string
  results :: "(string \<times> opportunity) list"

definition get_all_perpetual_pairs :: "string list" where
  "get_all_perpetual_pairs =
     [''BTC-USDT-SWAP'', ''ETH-USDT-SWAP'', ''SOL-USDT-SWAP'',
      ''ADA-USDT-SWAP'', ''DOT-USDT-SWAP'', ''XRP-USDT-SWAP'',
      ''LTC-USDT-SWAP'', ''BNB-USDT-SWAP'', ''AVAX-USDT-SWAP'',
      ''MATIC-USDT-SWAP'', ''LINK-USDT-SWAP'', ''UNI-USDT-SWAP'',
      ''DOGE-USDT-SWAP'', ''ATOM-USDT-SWAP'', ''NEAR-USDT-SWAP'',
      ''ALGO-USDT-SWAP'', ''FIL-USDT-SWAP'', ''ETC-USDT-SWAP'',
      ''XLM-USDT-SWAP'', ''EOS-USDT-SWAP'', ''XTZ-USDT-SWAP'',
      ''AAVE-USDT-SWAP'', ''SUSHI-USDT-SWAP'', ''MKR-USDT-SWAP'',
      ''COMP-USDT-SWAP'', ''YFI-USDT-SWAP'', ''SNX-USDT-SWAP'',
      ''SAND-USDT-SWAP'', ''MANA-USDT-SWAP'', ''ENJ-USDT-SWAP'',
      ''GALA-USDT-SWAP'', ''APE-USDT-SWAP'', ''GMT-USDT-SWAP'',
      ''IMX-USDT-SWAP'', ''RNDR-USDT-SWAP'', ''OP-USDT-SWAP'',
      ''ARB-USDT-SWAP'', ''APT-USDT-SWAP'', ''SUI-USDT-SWAP'']"

text \<open>
  The body of the loop \<open>for future in as_completed(future_to_pair)\<close>, for the task of
  one pair: a raised exception is logged and the loop continues; \<open>None\<close> and the empty
  dictionary are falsy and skipped; an opportunity is stored under its pair and, when its
  strength reaches \<open>min_confidence\<close>, appended to the local list.
\<close>

definition collect_result ::
  "real \<Rightarrow> (string \<Rightarrow> scan_result outcome) \<Rightarrow> string
     \<Rightarrow> (string \<times> opportunity) list \<times> opportunity list
     \<Rightarrow> (string \<times> opportunity) list \<times> opportunity list" where
  "collect_result threshold scan_single_pair pair acc =
     (case scan_single_pair pair of
        Raised \<Rightarrow> acc
      | Returned NoResult \<Rightarrow> acc
      | Returned EmptyResult \<Rightarrow> acc
      | Returned (Found result) \<Rightarrow>
          (dict_set (fst acc) pair result,
           if signal_strength result \<ge> threshold then snd acc @ [result] else snd acc))"

text \<open>
  \<open>sorted(xs, key=lambda x: x['signal_strength'], reverse=True)\<close>: descending by
  strength and stable, so that entries of equal strength keep their order.
\<close>

definition sorted_by_strength_desc :: "opportunity list \<Rightarrow> opportunity list" where
  "sorted_by_strength_desc xs = sort_key (\<lambda>x. - signal_strength x) xs"

text \<open>
  \<open>scan_all_pairs\<close>. The tasks run in a thread pool; what the method computes depends
  on the outcome of each pair's task (\<open>scan_single_pair\<close>, one outcome per pair) and on
  the order in which the tasks complete (\<open>completion\<close>, the submitted pairs in that
  order). Every task is taken to complete. An empty argument selects the built-in
  list. A worker limit below 1 makes the pool's constructor raise: the handler of the
  method clears \<open>is_scanning\<close> and returns the empty dictionary, \<open>None\<close> here.
\<close>

definition scan_all_pairs ::
  "scanner \<Rightarrow> string \<Rightarrow> (string \<Rightarrow> scan_result outcome) \<Rightarrow> (string list \<Rightarrow> string list)
     \<Rightarrow> string list \<Rightarrow> scan_report option \<times> scanner" where
  "scan_all_pairs sc clock scan_single_pair completion pairs_arg =
     (let pairs = (if pairs_arg = [] then get_all_perpetual_pairs else pairs_arg);
          sc1 = sc\<lparr>is_scanning := True, last_scan_time := Some clock\<rparr>
      in if max_concurrent_scans sc \<le> 0 then (None, sc1\<lparr>is_scanning := False\<rparr>)
         else
           let collected = foldl (\<lambda>acc pair. collect_result (min_confidence sc) scan_single_pair pair acc)
                             ([], []) (completion pairs);
               found = fst collected;
               local_signals = snd collected;
               sc2 = sc1\<lparr>scan_results := found,
                         high_confidence_signals := sorted_by_strength_desc local_signals,
                         is_scanning := False\<rparr>
           in (Some \<lparr>total_scanned = length pairs,
                     successful_scans = length found,
                     report_high_confidence_signals = local_signals,
                     scan_time = clock,
                     results = found\<rparr>,
               sc2))"

text \<open>\<open>get_high_confidence_signals\<close> with its default argument.\<close>

definition get_high_confidence_signals :: "scanner \<Rightarrow> opportunity list" where
  "get_high_confidence_signals sc =
     filter (\<lambda>signal. signal_strength signal \<ge> min_confidence sc) (high_confidence_signals sc)"

text \<open>
  The ranking of the specification, for comparison: descending by signal strength, ties
  in ascending order of the instrument name.
\<close>

definition spec_ranked :: "opportunity list \<Rightarrow> bool" where
  "spec_ranked xs =
     sorted_wrt (\<lambda>a b. signal_strength a > signal_strength b
                  \<or> (signal_strength a = signal_strength b \<and> opp_symbol a \<le> opp_symbol b)) xs"

text \<open>
  Whether a report accounts for an instrument. A report has no entry for a failure:
  its only per-instrument entries are those of \<open>results\<close>.
\<close>

definition accounted_for :: "scan_report \<Rightarrow> string \<Rightarrow> bool" where
  "accounted_for report pair = (pair \<in> set (map fst (results report)))"

text \<open>
  Concrete inputs: a scanner with the default configuration, opportunities for BTC and
  ETH, and task outcomes in which both scans succeed with equal strength, both succeed
  with ETH the stronger, and only the scan of BTC succeeds.
\<close>

definition default_scanner :: scanner where
  "default_scanner =
     \<lparr>max_concurrent_scans = 5, min_confidence = 7 / 10, is_scanning = False,
      last_scan_time = None, scan_results = [], high_confidence_signals = []\<rparr>"

definition btc_opportunity :: opportunity where
  "btc_opportunity =
     \<lparr>opp_symbol = ''BTC-USDT-SWAP'', timeframe = ''4H'', signal_strength = 8 / 10,
      trade_direction = ''LONG'', risk_level = ''LOW'', confidence = 8 / 10,
      reward_risk_ratio = 2\<rparr>"

definition eth_opportunity :: opportunity where
  "eth_opportunity = btc_opportunity\<lparr>opp_symbol := ''ETH-USDT-SWAP''\<rparr>"

definition eth_strong_opportunity :: opportunity where
  "eth_strong_opportunity = eth_opportunity\<lparr>signal_strength := 9 / 10\<rparr>"

definition both_found_equal :: "string \<Rightarrow> scan_result outcome" where
  "both_found_equal pair =
     (if pair = ''BTC-USDT-SWAP'' then Returned (Found btc_opportunity)
      else if pair = ''ETH-USDT-SWAP'' then Returned (Found eth_opportunity)
      else Returned NoResult)"

definition both_found_eth_stronger :: "string \<Rightarrow> scan_result outcome" where
  "both_found_eth_stronger pair =
     (if pair = ''BTC-USDT-SWAP'' then Returned (Found btc_opportunity)
      else if pair = ''ETH-USDT-SWAP'' then Returned (Found eth_strong_opportunity)
      else Returned NoResult)"

definition only_btc_found :: "string \<Rightarrow> scan_result outcome" where
  "only_btc_found pair =
     (if pair = ''BTC-USDT-SWAP'' then Returned (Found btc_opportunity)
      else if pair = ''ETH-USDT-SWAP'' then Raised
      else Returned NoResult)"

section \<open>Adaptive stop engine: \<open>SmartStopLoss\<close>\<close>

text \<open>
  The source writes sides and states as the strings \<open>'LONG'\<close>, \<open>'SHORT'\<close>,
  \<open>'OPEN'\<close>, \<open>'CLOSED'\<close>; no other value is ever stored.
\<close>

datatype position_type = LONG | SHORT

datatype position_status = OPEN | CLOSED

text \<open>The dictionary \<open>self.settings\<close> and its initial value.\<close>

record stoploss_settings =
  atr_period :: nat
  atr_multiplier :: real
  volatility_threshold :: real
  trailing_enabled :: bool
  break_even_enabled :: bool
  max_risk_per_trade :: real

definition initial_settings :: stoploss_settings where
  "initial_settings =
     \<lparr>atr_period = 14, atr_multiplier = 2, volatility_threshold = 2 / 100,
      trailing_enabled = True, break_even_enabled = True, max_risk_per_trade = 2 / 100\<rparr>"

text \<open>
  \<open>calculate_break_even_stop\<close>: \<open>None\<close> when the feature is off, when the profit
  ratio is below the threshold, and when the division by \<open>entry_price\<close> raises (the
  handler returns \<open>None\<close>). The ratio is taken with \<open>abs\<close>, as the source does.
\<close>

definition calculate_break_even_stop ::
  "stoploss_settings \<Rightarrow> string \<Rightarrow> position_type \<Rightarrow> real \<Rightarrow> real \<Rightarrow> real \<Rightarrow> real option" where
  "calculate_break_even_stop settings symb ptype entry current_price profit_threshold =
     (if \<not> break_even_enabled settings then None
      else if entry = 0 then None
      else
        let profit_pct = \<bar>current_price - entry\<bar> / entry in
        if profit_pct \<ge> profit_threshold then
          (case ptype of
             LONG \<Rightarrow> Some (entry * (1001 / 1000))
           | SHORT \<Rightarrow> Some (entry * (999 / 1000)))
        else None)"

text \<open>
  The unrealized profit of a position as a fraction of its entry price, as the claim
  words it (positive when the price moved in the position's favour). No function of the
  source computes it; it serves to state the claim about the break-even stop.
\<close>

definition unrealized_profit_fraction :: "position_type \<Rightarrow> real \<Rightarrow> real \<Rightarrow> real" where
  "unrealized_profit_fraction ptype entry current_price =
     (case ptype of
        LONG \<Rightarrow> (current_price - entry) / entry
      | SHORT \<Rightarrow> (entry - current_price) / entry)"

text \<open>
  A stop level as Python holds it: a number, or NaN. The engine produces NaN when the
  data-frame library has no rolling mean to give (see \<open>calculate_atr\<close>), and NaN then
  flows through the arithmetic, the comparisons, \<open>or\<close>, \<open>max\<close> and \<open>min\<close>
  below. Every comparison with NaN is false. \<open>max(a, b)\<close> keeps \<open>a\<close> unless
  \<open>b > a\<close>, and \<open>max([a, b, c])\<close> goes through the list in the same way, so a NaN
  in first place stays and a NaN in a later place is never taken; likewise for
  \<open>min\<close> with \<open>b < a\<close>.
\<close>

datatype pyfloat = Num real | NaN

definition py_lt :: "pyfloat \<Rightarrow> pyfloat \<Rightarrow> bool" where
  "py_lt a b = (case a of Num x \<Rightarrow> (case b of Num y \<Rightarrow> x < y | NaN \<Rightarrow> False) | NaN \<Rightarrow> False)"

definition py_le :: "pyfloat \<Rightarrow> pyfloat \<Rightarrow> bool" where
  "py_le a b = (case a of Num x \<Rightarrow> (case b of Num y \<Rightarrow> x \<le> y | NaN \<Rightarrow> False) | NaN \<Rightarrow> False)"

definition py_max :: "pyfloat \<Rightarrow> pyfloat \<Rightarrow> pyfloat" where
  "py_max a b = (if py_lt a b then b else a)"

definition py_min :: "pyfloat \<Rightarrow> pyfloat \<Rightarrow> pyfloat" where
  "py_min a b = (if py_lt b a then b else a)"

text \<open>Arithmetic with numbers on one argument that may be NaN: NaN stays NaN.\<close>

definition py_map :: "(real \<Rightarrow> real) \<Rightarrow> pyfloat \<Rightarrow> pyfloat" where
  "py_map f a = (case a of Num x \<Rightarrow> Num (f x) | NaN \<Rightarrow> NaN)"

text \<open>
  The engine's state: its settings and \<open>self.position_stops\<close>, a dictionary from
  position id to the record of the last update. The keys \<open>'symbol'\<close>,
  \<open>'position_type'\<close> and \<open>'entry_price'\<close> of that record carry the prefix
  \<open>info_\<close> here, since the position has fields of the same names.
\<close>

record stop_info =
  info_symbol :: string
  info_position_type :: position_type
  info_entry_price :: real
  current_stop :: pyfloat
  dynamic_stop :: pyfloat
  trailing_stop :: "pyfloat option"
  break_even_stop :: "real option"
  last_updated :: string

record smart_stoploss =
  settings :: stoploss_settings
  position_stops :: "(string \<times> stop_info) list"

definition remove_position_stop :: "smart_stoploss \<Rightarrow> string \<Rightarrow> smart_stoploss" where
  "remove_position_stop eng pid =
     (if pid \<in> set (map fst (position_stops eng))
      then eng\<lparr>position_stops := dict_del (position_stops eng) pid\<rparr>
      else eng)"

text \<open>\<open>update_settings\<close>: \<open>self.settings.update(new_settings)\<close>.\<close>

definition update_settings ::
  "smart_stoploss \<Rightarrow> (stoploss_settings \<Rightarrow> stoploss_settings) \<Rightarrow> smart_stoploss" where
  "update_settings eng new_settings = eng\<lparr>settings := new_settings (settings eng)\<rparr>"

text \<open>
  \<open>get_recent_ohlcv\<close> reads the latest rows of an instrument from the database into
  a data frame; \<open>None\<close> is the empty frame, which is also what a failed query gives.
  The engine uses a non-empty frame through its number of rows and two numbers that the
  data-frame library computes from it: the mean of the true range over the last
  \<open>atr_period\<close> rows, and the standard deviation of the returns. The library gives
  these numbers only when the frame is long enough. The rolling mean
  \<open>rolling(window=atr_period).mean().iloc[-1]\<close> is NaN when the frame has fewer rows
  than the window, and for a window of no rows. The standard deviation of the returns is
  NaN when the frame has fewer than three rows (fewer than two returns).
\<close>

record ohlcv_frame =
  frame_rows :: nat
  true_range_mean :: real
  returns_std :: real

text \<open>
  What one call of the engine sees of the outside: the database, the clock, and whether
  and where a statement of the body of \<open>update_position_stop_loss\<close> raises. No
  statement of that body raises on numbers by itself (each of the three calculations
  handles its own exceptions), so \<open>body_raises\<close> stands for a failure from outside
  the arithmetic, either before the record of the position is stored or after it (at the
  logging call that follows the store).
\<close>

datatype raise_point = Before_store | After_store

record stop_env =
  get_recent_ohlcv :: "string \<Rightarrow> nat \<Rightarrow> ohlcv_frame option"
  stop_clock :: string
  body_raises :: "raise_point option"

definition calculate_fixed_stop_loss :: "real \<Rightarrow> position_type \<Rightarrow> real \<Rightarrow> real" where
  "calculate_fixed_stop_loss entry ptype risk =
     (case ptype of
        LONG \<Rightarrow> entry * (1 - risk)
      | SHORT \<Rightarrow> entry * (1 + risk))"

definition calculate_atr :: "stoploss_settings \<Rightarrow> ohlcv_frame \<Rightarrow> pyfloat" where
  "calculate_atr st ohlcv_data =
     (if atr_period st = 0 \<or> frame_rows ohlcv_data < atr_period st then NaN
      else Num (true_range_mean ohlcv_data))"

text \<open>
  \<open>calculate_volatility_factor\<close>. With a deviation that is NaN both comparisons are
  false and the factor is 1.
\<close>

definition calculate_volatility_factor :: "stoploss_settings \<Rightarrow> ohlcv_frame \<Rightarrow> real" where
  "calculate_volatility_factor st ohlcv_data =
     (let volatility = (if frame_rows ohlcv_data < 3 then NaN else Num (returns_std ohlcv_data)) in
      if py_lt volatility (Num (volatility_threshold st)) then 8 / 10
      else if py_lt (Num (volatility_threshold st * 2)) volatility then 15 / 10
      else 1)"

text \<open>
  \<open>calculate_dynamic_stop_loss\<close>. \<open>atr == 0\<close> is false for NaN, so a frame without
  a rolling mean goes on to the arithmetic, and \<open>max(stop_loss, max_stop_loss)\<close> keeps
  the NaN of its first argument.
\<close>

definition calculate_dynamic_stop_loss ::
  "stoploss_settings \<Rightarrow> stop_env \<Rightarrow> string \<Rightarrow> position_type \<Rightarrow> real \<Rightarrow> real \<Rightarrow> pyfloat" where
  "calculate_dynamic_stop_loss st env symb ptype entry current_price =
     (case get_recent_ohlcv env symb 50 of
        None \<Rightarrow> Num (calculate_fixed_stop_loss entry ptype (2 / 100))
      | Some ohlcv_data \<Rightarrow>
          let atr = calculate_atr st ohlcv_data in
          if atr = Num 0 then Num (calculate_fixed_stop_loss entry ptype (2 / 100))
          else
            let volatility_factor = calculate_volatility_factor st ohlcv_data;
                base_stop_distance = py_map (\<lambda>a. a * atr_multiplier st * volatility_factor) atr
            in (case ptype of
                  LONG \<Rightarrow>
                    py_max (py_map (\<lambda>d. entry - d) base_stop_distance)
                      (Num (entry * (1 - max_risk_per_trade st)))
                | SHORT \<Rightarrow>
                    py_min (py_map (\<lambda>d. entry + d) base_stop_distance)
                      (Num (entry * (1 + max_risk_per_trade st)))))"

definition calculate_trailing_stop_loss ::
  "stoploss_settings \<Rightarrow> stop_env \<Rightarrow> string \<Rightarrow> position_type \<Rightarrow> real \<Rightarrow> real \<Rightarrow> pyfloat option
     \<Rightarrow> pyfloat option" where
  "calculate_trailing_stop_loss st env symb ptype entry current_price previous_stop =
     (if \<not> trailing_enabled st then previous_stop
      else case get_recent_ohlcv env symb 20 of
        None \<Rightarrow> previous_stop
      | Some ohlcv_data \<Rightarrow>
          let atr = calculate_atr st ohlcv_data;
              trailing_distance = py_map (\<lambda>a. a * atr_multiplier st * (7 / 10)) atr
          in (case ptype of
                LONG \<Rightarrow>
                  (case previous_stop of
                     None \<Rightarrow> Some (py_map (\<lambda>d. entry - d) trailing_distance)
                   | Some previous \<Rightarrow>
                       let new_stop = py_map (\<lambda>d. current_price - d) trailing_distance in
                       if py_lt previous new_stop then Some new_stop else Some previous)
              | SHORT \<Rightarrow>
                  (case previous_stop of
                     None \<Rightarrow> Some (py_map (\<lambda>d. entry + d) trailing_distance)
                   | Some previous \<Rightarrow>
                       let new_stop = py_map (\<lambda>d. current_price + d) trailing_distance in
                       if py_lt new_stop previous then Some new_stop else Some previous)))"

text \<open>
  Python's \<open>x or y\<close> on an optional stop level: \<open>y\<close> when \<open>x\<close> is \<open>None\<close> and
  also when \<open>x\<close> is \<open>0.0\<close>; NaN counts as true and is kept.
\<close>

definition or_else :: "pyfloat option \<Rightarrow> pyfloat \<Rightarrow> pyfloat" where
  "or_else x y = (case x of None \<Rightarrow> y | Some v \<Rightarrow> if v = Num 0 then y else v)"

text \<open>
  The body of the \<open>try\<close> block of \<open>update_position_stop_loss\<close>, run to its end:
  the final stop and the engine with the record of the position stored. The final stop
  is \<open>max\<close> (for a Short \<open>min\<close>) of the list of the dynamic stop, the trailing stop
  and the break-even stop, in this order.
\<close>

definition update_body ::
  "smart_stoploss \<Rightarrow> stop_env \<Rightarrow> string \<Rightarrow> string \<Rightarrow> position_type \<Rightarrow> real \<Rightarrow> real
     \<Rightarrow> pyfloat \<times> smart_stoploss" where
  "update_body eng env pid symb ptype entry current_price =
     (let dynamic = calculate_dynamic_stop_loss (settings eng) env symb ptype entry current_price;
          previous_stop = map_option current_stop (map_of (position_stops eng) pid);
          trailing = calculate_trailing_stop_loss (settings eng) env symb ptype entry
                       current_price previous_stop;
          break_even = calculate_break_even_stop (settings eng) symb ptype entry
                         current_price (1 / 100);
          final_stop =
            (case ptype of
               LONG \<Rightarrow>
                 py_max (py_max dynamic (or_else trailing dynamic))
                   (or_else (map_option Num break_even) dynamic)
             | SHORT \<Rightarrow>
                 py_min (py_min dynamic (or_else trailing dynamic))
                   (or_else (map_option Num break_even) dynamic))
      in (final_stop,
          eng\<lparr>position_stops := dict_set (position_stops eng) pid
                \<lparr>info_symbol = symb, info_position_type = ptype, info_entry_price = entry,
                 current_stop = final_stop, dynamic_stop = dynamic, trailing_stop = trailing,
                 break_even_stop = break_even, last_updated = stop_clock env\<rparr>\<rparr>))"

text \<open>
  \<open>update_position_stop_loss\<close> returns the stop of the body. When the body raises,
  its handler returns the fixed 2 percent stop instead; the record of the position is
  then stored or not, according to where the body was left.
\<close>

definition update_position_stop_loss ::
  "smart_stoploss \<Rightarrow> stop_env \<Rightarrow> string \<Rightarrow> string \<Rightarrow> position_type \<Rightarrow> real \<Rightarrow> real
     \<Rightarrow> pyfloat \<times> smart_stoploss" where
  "update_position_stop_loss eng env pid symb ptype entry current_price =
     (case body_raises env of
        None \<Rightarrow> update_body eng env pid symb ptype entry current_price
      | Some Before_store \<Rightarrow> (Num (calculate_fixed_stop_loss entry ptype (2 / 100)), eng)
      | Some After_store \<Rightarrow>
          (Num (calculate_fixed_stop_loss entry ptype (2 / 100)),
           snd (update_body eng env pid symb ptype entry current_price)))"

text \<open>\<open>check_stop_loss_hit\<close>.\<close>

definition check_stop_loss_hit :: "smart_stoploss \<Rightarrow> string \<Rightarrow> real \<Rightarrow> bool" where
  "check_stop_loss_hit eng pid current_price =
     (case map_of (position_stops eng) pid of
        None \<Rightarrow> False
      | Some stop_info \<Rightarrow>
          if info_position_type stop_info = LONG
             \<and> py_le (Num current_price) (current_stop stop_info) then True
          else if info_position_type stop_info = SHORT
             \<and> py_le (current_stop stop_info) (Num current_price)
          then True
          else False)"

text \<open>
  The stops returned by a sequence of calls for one position, each call with its own
  view of the outside and its own current price.
\<close>

fun returned_stops ::
  "smart_stoploss \<Rightarrow> string \<Rightarrow> string \<Rightarrow> position_type \<Rightarrow> real \<Rightarrow> (stop_env \<times> real) list
     \<Rightarrow> pyfloat list" where
  "returned_stops eng pid symb ptype entry [] = []"
| "returned_stops eng pid symb ptype entry ((env, current_price) # calls) =
     (let (stop, eng') = update_position_stop_loss eng env pid symb ptype entry current_price
      in stop # returned_stops eng' pid symb ptype entry calls)"

text \<open>
  The stops returned by those calls of the sequence that complete without reaching the
  handler.
\<close>

fun completed_stops ::
  "smart_stoploss \<Rightarrow> string \<Rightarrow> string \<Rightarrow> position_type \<Rightarrow> real \<Rightarrow> (stop_env \<times> real) list
     \<Rightarrow> pyfloat list" where
  "completed_stops eng pid symb ptype entry [] = []"
| "completed_stops eng pid symb ptype entry ((env, current_price) # calls) =
     (let (stop, eng') = update_position_stop_loss eng env pid symb ptype entry current_price
      in (if body_raises env = None then [stop] else [])
           @ completed_stops eng' pid symb ptype entry calls)"

text \<open>
  Concrete inputs: the engine as constructed, a database without rows, one whose frames
  have 50 and 20 rows, a true-range mean of 1 and a return deviation of 3 percent, one
  with flat prices, one that holds only 5 rows of the instrument, and a call whose body
  raises.
\<close>

definition initial_engine :: smart_stoploss where
  "initial_engine = \<lparr>settings = initial_settings, position_stops = []\<rparr>"

definition no_data :: stop_env where
  "no_data =
     \<lparr>get_recent_ohlcv = (\<lambda>symb limit. None), stop_clock = ''2024-01-01T00:00:00'',
      body_raises = None\<rparr>"

definition steady_data :: stop_env where
  "steady_data =
     \<lparr>get_recent_ohlcv =
        (\<lambda>symb limit. Some \<lparr>frame_rows = limit, true_range_mean = 1, returns_std = 3 / 100\<rparr>),
      stop_clock = ''2024-01-01T00:00:10'', body_raises = None\<rparr>"

definition flat_data :: stop_env where
  "flat_data =
     \<lparr>get_recent_ohlcv =
        (\<lambda>symb limit. Some \<lparr>frame_rows = limit, true_range_mean = 0, returns_std = 0\<rparr>),
      stop_clock = ''2024-01-01T00:00:20'', body_raises = None\<rparr>"

definition short_history :: stop_env where
  "short_history =
     \<lparr>get_recent_ohlcv =
        (\<lambda>symb limit. Some \<lparr>frame_rows = 5, true_range_mean = 1, returns_std = 3 / 100\<rparr>),
      stop_clock = ''2024-01-01T00:00:30'', body_raises = None\<rparr>"

definition failing_call :: stop_env where
  "failing_call = steady_data\<lparr>body_raises := Some Before_store\<rparr>"

text \<open>The engine after a first update of a Long entered at 100, without market data.\<close>

definition engine_after_first_update :: smart_stoploss where
  "engine_after_first_update =
     snd (update_position_stop_loss initial_engine no_data ''LONG_BTC-USDT-SWAP_1700000000''
            ''BTC-USDT-SWAP'' LONG 100 100)"

section \<open>Trade manager: \<open>TradingSystem\<close>\<close>

text \<open>
  The data class \<open>TradingPosition\<close>. Time stamps are ISO-8601 strings. The stop and
  the target come from the stop engine and can be NaN.
\<close>

record trading_position =
  position_id :: string
  symbol :: string
  position_type :: position_type
  entry_price :: real
  quantity :: real
  stop_loss :: pyfloat
  take_profit :: pyfloat
  status :: position_status
  created_at :: string
  pnl :: real
  leverage :: int
  order_id :: string
  exit_price :: real
  closed_at :: string
  close_reason :: string

text \<open>The data class \<open>SpotHolding\<close>; its \<open>symbol\<close> and \<open>quantity\<close> carry a prefix.\<close>

record spot_holding =
  holding_symbol :: string
  holding_quantity :: real
  avg_price :: real
  total_cost :: real
  last_buy_price :: real
  last_buy_time :: string
  last_sell_price :: real
  last_sell_time :: string

text \<open>
  The attributes of \<open>TradingSystem\<close> that the modelled methods read or write. The
  position book \<open>self.positions\<close> is a Python dictionary, which keeps insertion order:
  an association list with the operations below.
\<close>

record trading_system =
  risk_percent :: real
  max_positions :: int
  cooldown_period :: real
  max_daily_loss :: real
  max_position_size :: real
  max_daily_trades :: int
  volatility_filter :: bool
  default_leverage :: int
  futures_trading_fee :: real
  futures_pairs :: "string list"
  futures_enabled :: bool
  spot_enabled :: bool
  spot_pairs :: "string list"
  min_spot_amount :: real
  max_spot_amount :: real
  spot_trading_fee :: real
  trading_mode :: string
  balance :: real
  available_balance :: real
  positions :: "(string \<times> trading_position) list"
  daily_pnl :: real
  today_start_balance :: real
  position_count :: nat
  total_trades_today :: int
  auto_trading :: bool
  last_trade_time :: "real option"
  last_reset_date :: "nat option"
  spot_holdings :: "(string \<times> spot_holding) list"
  smart_stoploss :: "smart_stoploss option"

text \<open>
  What the manager sees of the outside during one tick of its loop: the clock
  (\<open>time.time()\<close>, \<open>datetime.now().isoformat()\<close> and the number of the day),
  the outcome of \<open>_get_current_price\<close> for each instrument (a price, or \<open>None\<close>
  when neither the 5-second cache nor the ticker gives one; the cache itself is not part
  of the model), the answers of the exchange gateway (a close, a leverage setting, an
  order, which yields the id of the order or nothing, spot orders, the spot balance), the
  outcome of \<open>_get_trading_signal_with_confidence\<close> for each instrument (from the
  strategy or from the random fallback), and the engine's view of the database. The
  clock does not advance within a tick.
\<close>

datatype signal = Enter position_type | HOLD

record balance_info =
  total_balance :: "real option"
  available_balance_info :: "real option"

record market =
  now :: real
  now_iso :: string
  today :: nat
  get_current_price :: "string \<Rightarrow> real option"
  futures_close_position :: "string \<Rightarrow> position_type \<Rightarrow> bool outcome"
  futures_set_leverage :: "string \<Rightarrow> int \<Rightarrow> bool outcome"
  futures_create_order :: "string \<Rightarrow> position_type \<Rightarrow> real \<Rightarrow> int \<Rightarrow> string option outcome"
  okx_spot_buy :: "string \<Rightarrow> real \<Rightarrow> real \<Rightarrow> bool outcome"
  okx_spot_sell :: "string \<Rightarrow> real \<Rightarrow> real \<Rightarrow> bool outcome"
  get_spot_balance :: "balance_info option outcome"
  trading_signal :: "string \<Rightarrow> signal \<times> real"
  stop_data :: stop_env

text \<open>
  \<open>_calculate_position_size\<close>. The only operation that can raise is the division by
  \<open>price\<close>; the handler returns \<open>0.0\<close>.
\<close>

definition calculate_position_size :: "trading_system \<Rightarrow> real \<Rightarrow> real" where
  "calculate_position_size s price =
     (if price = 0 then 0
      else
        let risk_amount = available_balance s * risk_percent s / 100;
            position_size = risk_amount / price;
            max_size_usdt = available_balance s * max_position_size s;
            max_size = max_size_usdt / price;
            min_size = 1 / 1000;
            final_size = min position_size max_size
        in max final_size min_size)"

text \<open>
  The sizing rule in the words of the specification, for comparison: the risk amount is
  divided by the distance between the entry price and the stop, capped so that the
  position's value stays within the given fraction of the balance, and floored at the
  exchange minimum.
\<close>

definition spec_position_size :: "real \<Rightarrow> real \<Rightarrow> real \<Rightarrow> real \<Rightarrow> real \<Rightarrow> real \<Rightarrow> real" where
  "spec_position_size availableBalance riskFraction entryPrice stopPrice maxFraction minSize =
     (let riskAmount = availableBalance * riskFraction;
          size = riskAmount / \<bar>entryPrice - stopPrice\<bar>;
          capped = min size (availableBalance * maxFraction / entryPrice)
      in max capped minSize)"

text \<open>
  \<open>_initialize_subsystems\<close> constructs the stop engine and overwrites three of its
  settings with the manager's \<open>atr_multiplier\<close>, \<open>risk_percent / 100\<close> and
  \<open>max_volatility\<close>. When the construction fails the manager has no engine, which is
  \<open>None\<close> in the field \<open>smart_stoploss\<close> below.
\<close>

definition initialize_subsystems :: "real \<Rightarrow> real \<Rightarrow> real \<Rightarrow> smart_stoploss" where
  "initialize_subsystems atr_multiplier_config risk_percent_config max_volatility_config =
     update_settings \<lparr>settings = initial_settings, position_stops = []\<rparr>
       (\<lambda>st. st\<lparr>atr_multiplier := atr_multiplier_config,
                 max_risk_per_trade := risk_percent_config / 100,
                 volatility_threshold := max_volatility_config\<rparr>)"

text \<open>
  A trade manager with the default configuration (balance 1000, risk 2 percent, at most
  20 percent of the balance per position, at most 5 positions, ATR multiplier 2, maximal
  volatility 0.1) and an empty book.
\<close>

definition default_system :: trading_system where
  "default_system =
     \<lparr>risk_percent = 2, max_positions = 5, cooldown_period = 300, max_daily_loss = 5 / 100,
      max_position_size = 2 / 10, max_daily_trades = 20, volatility_filter = True,
      default_leverage = 10, futures_trading_fee = 4 / 10000,
      futures_pairs = [''BTC-USDT-SWAP'', ''ETH-USDT-SWAP'', ''SOL-USDT-SWAP''],
      futures_enabled = True, spot_enabled = True,
      spot_pairs = [''BTC-USDT'', ''ETH-USDT'', ''SOL-USDT''],
      min_spot_amount = 10, max_spot_amount = 1000, spot_trading_fee = 1 / 1000,
      trading_mode = ''both'',
      balance = 1000, available_balance = 1000, positions = [], daily_pnl = 0,
      today_start_balance = 1000, position_count = 0, total_trades_today = 0,
      auto_trading = False, last_trade_time = None, last_reset_date = None, spot_holdings = [],
      smart_stoploss = Some (initialize_subsystems 2 2 (1 / 10))\<rparr>"

text \<open>\<open>get_open_positions\<close>.\<close>

definition get_open_positions :: "trading_system \<Rightarrow> trading_position list" where
  "get_open_positions s = filter (\<lambda>pos. status pos = OPEN) (map snd (positions s))"

text \<open>\<open>_check_market_volatility\<close> returns \<open>True\<close> on every path that can be taken.\<close>

definition check_market_volatility :: "trading_system \<Rightarrow> bool" where
  "check_market_volatility s = True"

text \<open>
  \<open>_can_execute_trade\<close>. \<open>if self.last_trade_time:\<close> is false for \<open>None\<close> and
  for \<open>0.0\<close>.
\<close>

definition can_execute_trade :: "market \<Rightarrow> trading_system \<Rightarrow> bool" where
  "can_execute_trade env s =
     (if int (length (positions s)) \<ge> max_positions s then False
      else if total_trades_today s \<ge> max_daily_trades s then False
      else if (case last_trade_time s of
                 None \<Rightarrow> False
               | Some t \<Rightarrow> t \<noteq> 0 \<and> now env - t < cooldown_period s) then False
      else if volatility_filter s \<and> \<not> check_market_volatility s then False
      else True)"

text \<open>
  \<open>_check_risk_limits\<close>. A zero \<open>today_start_balance\<close> makes the division raise,
  and the handler returns \<open>True\<close>.
\<close>

definition check_risk_limits :: "trading_system \<Rightarrow> bool" where
  "check_risk_limits s =
     (if today_start_balance s = 0 then True
      else
        let daily_loss_pct = \<bar>daily_pnl s\<bar> / today_start_balance s in
        if daily_loss_pct \<ge> max_daily_loss s then True
        else if int (length (positions s)) \<ge> max_positions s then True
        else False)"

text \<open>\<open>_calculate_position_pnl\<close>; nothing in it can raise on numbers.\<close>

definition calculate_position_pnl :: "trading_system \<Rightarrow> trading_position \<Rightarrow> real \<Rightarrow> real" where
  "calculate_position_pnl s position current_price =
     (let gross =
            (case position_type position of
               LONG \<Rightarrow> (current_price - entry_price position) * quantity position
             | SHORT \<Rightarrow> (entry_price position - current_price) * quantity position);
          net = gross - quantity position * entry_price position * futures_trading_fee s * 2
      in net * of_int (leverage position))"

text \<open>
  \<open>close_position\<close> returns \<open>(False, message)\<close> on five paths, told apart here by an
  error value, and \<open>(True, message)\<close> after it has closed the position. The write of
  the trade record and the notification swallow their own failures and touch nothing of
  the state below.
\<close>

datatype close_error = NoSuchPosition | NotOpen | NoPrice | CloseRefused | CloseFailed

definition close_position ::
  "market \<Rightarrow> trading_system \<Rightarrow> string \<Rightarrow> string \<Rightarrow> (close_error + unit) \<times> trading_system" where
  "close_position env s pid reason =
     (case map_of (positions s) pid of
        None \<Rightarrow> (Inl NoSuchPosition, s)
      | Some position \<Rightarrow>
          if status position \<noteq> OPEN then (Inl NotOpen, s)
          else
            (case get_current_price env (symbol position) of
               None \<Rightarrow> (Inl NoPrice, s)
             | Some current_price \<Rightarrow>
                 (case futures_close_position env (symbol position) (position_type position) of
                    Raised \<Rightarrow> (Inl CloseFailed, s)
                  | Returned False \<Rightarrow> (Inl CloseRefused, s)
                  | Returned True \<Rightarrow>
                      let realized = calculate_position_pnl s position current_price;
                          closed = position
                            \<lparr>status := CLOSED, exit_price := current_price,
                             closed_at := now_iso env, pnl := realized,
                             close_reason := reason\<rparr>
                      in (Inr (),
                          s\<lparr>positions := dict_set (positions s) pid closed,
                            daily_pnl := daily_pnl s + realized,
                            balance := balance s + realized,
                            available_balance := available_balance s + realized,
                            smart_stoploss :=
                              map_option (\<lambda>eng. remove_position_stop eng pid)
                                (smart_stoploss s)\<rparr>))))"

text \<open>\<open>str(n)\<close> for a natural number.\<close>

definition digit_char :: "nat \<Rightarrow> char" where
  "digit_char d = ''0123456789'' ! d"

fun str_nat :: "nat \<Rightarrow> string" where
  "str_nat n =
     (if n < 10 then [digit_char n]
      else str_nat (n div 10) @ [digit_char (n mod 10)])"

text \<open>
  \<open>_calculate_stop_loss\<close> and \<open>_calculate_take_profit\<close>. With the stop engine
  present the stop is its dynamic stop, otherwise 2 percent from the entry; the target
  lies twice the stop distance beyond the entry, and is NaN when the stop is.
\<close>

definition calculate_stop_loss ::
  "market \<Rightarrow> trading_system \<Rightarrow> string \<Rightarrow> position_type \<Rightarrow> real \<Rightarrow> pyfloat" where
  "calculate_stop_loss env s symb ptype entry =
     (case smart_stoploss s of
        Some eng \<Rightarrow> calculate_dynamic_stop_loss (settings eng) (stop_data env) symb ptype entry entry
      | None \<Rightarrow>
          (case ptype of LONG \<Rightarrow> Num (entry * (98 / 100)) | SHORT \<Rightarrow> Num (entry * (102 / 100))))"

definition calculate_take_profit ::
  "market \<Rightarrow> trading_system \<Rightarrow> string \<Rightarrow> position_type \<Rightarrow> real \<Rightarrow> pyfloat" where
  "calculate_take_profit env s symb ptype entry =
     (let stop = calculate_stop_loss env s symb ptype entry;
          risk = py_map (\<lambda>stop_level. \<bar>entry - stop_level\<bar>) stop
      in case ptype of
           LONG \<Rightarrow> py_map (\<lambda>r. entry + r * 2) risk
         | SHORT \<Rightarrow> py_map (\<lambda>r. entry - r * 2) risk)"

text \<open>
  \<open>open_long_position\<close> and \<open>open_short_position\<close> differ only in the side, which
  is a parameter of \<open>open_position\<close>. The quantity is optional
  (\<open>if not quantity\<close> is true for \<open>None\<close> and for zero). A leverage setting that
  returns false is only logged; one that raises, like an order that raises, ends in the
  handler. Neither function looks at \<open>max_positions\<close>.
\<close>

datatype open_error = InvalidSize | OrderFailed | OpenFailed

definition side_name :: "position_type \<Rightarrow> string" where
  "side_name ptype = (case ptype of LONG \<Rightarrow> ''LONG'' | SHORT \<Rightarrow> ''SHORT'')"

text \<open>The id of a new position, \<open>f"LONG_{symbol}_{int(time.time())}"\<close>.\<close>

definition new_position_id :: "position_type \<Rightarrow> string \<Rightarrow> real \<Rightarrow> string" where
  "new_position_id ptype symb clock = side_name ptype @ ''_'' @ symb @ ''_'' @ str_nat (nat \<lfloor>clock\<rfloor>)"

definition open_position ::
  "position_type \<Rightarrow> market \<Rightarrow> trading_system \<Rightarrow> string \<Rightarrow> real \<Rightarrow> real option
     \<Rightarrow> (open_error + unit) \<times> trading_system" where
  "open_position ptype env s symb price quantity_arg =
     (let size =
            (case quantity_arg of
               None \<Rightarrow> calculate_position_size s price
             | Some q \<Rightarrow> if q = 0 then calculate_position_size s price else q)
      in if size \<le> 0 then (Inl InvalidSize, s)
         else
           (case futures_set_leverage env symb (default_leverage s) of
              Raised \<Rightarrow> (Inl OpenFailed, s)
            | Returned leverage_set \<Rightarrow>
                (case futures_create_order env symb ptype size (default_leverage s) of
                   Raised \<Rightarrow> (Inl OpenFailed, s)
                 | Returned None \<Rightarrow> (Inl OrderFailed, s)
                 | Returned (Some order) \<Rightarrow>
                     let pid = new_position_id ptype symb (now env);
                         position =
                           \<lparr>position_id = pid, symbol = symb, position_type = ptype,
                            entry_price = price, quantity = size,
                            stop_loss = calculate_stop_loss env s symb ptype price,
                            take_profit = calculate_take_profit env s symb ptype price,
                            status = OPEN, created_at = now_iso env, pnl = 0,
                            leverage = default_leverage s, order_id = order,
                            exit_price = 0, closed_at = [], close_reason = []\<rparr>
                     in (Inr (),
                         s\<lparr>positions := dict_set (positions s) pid position,
                           position_count := position_count s + 1,
                           smart_stoploss :=
                             map_option
                               (\<lambda>eng. snd (update_position_stop_loss eng (stop_data env) pid symb
                                              ptype price price))
                               (smart_stoploss s)\<rparr>))))"

definition open_long_position ::
  "market \<Rightarrow> trading_system \<Rightarrow> string \<Rightarrow> real \<Rightarrow> real option
     \<Rightarrow> (open_error + unit) \<times> trading_system" where
  "open_long_position env s symb price quantity_arg = open_position LONG env s symb price quantity_arg"

definition open_short_position ::
  "market \<Rightarrow> trading_system \<Rightarrow> string \<Rightarrow> real \<Rightarrow> real option
     \<Rightarrow> (open_error + unit) \<times> trading_system" where
  "open_short_position env s symb price quantity_arg = open_position SHORT env s symb price quantity_arg"

text \<open>\<open>_should_close_position\<close>. Its comparisons are false for a stop or target that is NaN.\<close>

definition should_close_position :: "trading_system \<Rightarrow> trading_position \<Rightarrow> real \<Rightarrow> bool" where
  "should_close_position s position current_price =
     (if py_lt (Num 0) (stop_loss position)
         \<and> ((position_type position = LONG \<and> py_le (Num current_price) (stop_loss position))
            \<or> (position_type position = SHORT \<and> py_le (stop_loss position) (Num current_price)))
      then True
      else if py_lt (Num 0) (take_profit position)
         \<and> ((position_type position = LONG \<and> py_le (take_profit position) (Num current_price))
            \<or> (position_type position = SHORT \<and> py_le (Num current_price) (take_profit position)))
      then True
      else (case smart_stoploss s of
              Some eng \<Rightarrow> check_stop_loss_hit eng (position_id position) current_price
            | None \<Rightarrow> False))"

text \<open>
  \<open>_check_position_stops\<close>. The body of its first loop, for one item of the book:
  a position that is not Open or has no price is skipped; otherwise its P&L is
  recomputed, its id is noted when it should be closed, and its stop is replaced by the
  engine's updated stop. The second loop closes the noted positions with the reason
  \<open>STOP_LOSS\<close>, whatever \<open>close_position\<close> answers.
\<close>

definition check_one_position ::
  "market \<Rightarrow> string \<times> trading_position \<Rightarrow> trading_system \<times> string list
     \<Rightarrow> trading_system \<times> string list" where
  "check_one_position env item acc =
     (let pid = fst item; position = snd item; s = fst acc; positions_to_close = snd acc
      in if status position \<noteq> OPEN then acc
         else
           (case get_current_price env (symbol position) of
              None \<Rightarrow> acc
            | Some current_price \<Rightarrow>
                let repriced = position\<lparr>pnl := calculate_position_pnl s position current_price\<rparr>;
                    noted = (if should_close_position s repriced current_price
                             then positions_to_close @ [pid] else positions_to_close)
                in (case smart_stoploss s of
                      None \<Rightarrow> (s\<lparr>positions := dict_set (positions s) pid repriced\<rparr>, noted)
                    | Some eng \<Rightarrow>
                        let updated = update_position_stop_loss eng (stop_data env) pid
                                        (symbol position) (position_type position)
                                        (entry_price position) current_price
                        in (s\<lparr>positions := dict_set (positions s) pid
                                             (repriced\<lparr>stop_loss := fst updated\<rparr>),
                              smart_stoploss := Some (snd updated)\<rparr>,
                            noted))))"

definition check_position_stops :: "market \<Rightarrow> trading_system \<Rightarrow> trading_system" where
  "check_position_stops env s =
     (let checked = foldl (\<lambda>acc item. check_one_position env item acc) (s, []) (positions s)
      in foldl (\<lambda>s' pid. snd (close_position env s' pid ''STOP_LOSS'')) (fst checked) (snd checked))"

text \<open>
  \<open>_execute_futures_strategy\<close>: the loop over the first three futures pairs, which
  breaks as soon as \<open>_can_execute_trade\<close> is false. \<open>current_price\<close> is tested for
  truth, so a price of zero counts as none.
\<close>

fun execute_futures_pairs :: "market \<Rightarrow> string list \<Rightarrow> trading_system \<Rightarrow> trading_system" where
  "execute_futures_pairs env [] s = s"
| "execute_futures_pairs env (symb # rest) s =
     (if \<not> can_execute_trade env s then s
      else
        (case (fst (trading_signal env symb), get_current_price env symb) of
           (Enter ptype, Some current_price) \<Rightarrow>
             if current_price = 0 then execute_futures_pairs env rest s
             else
               (case open_position ptype env s symb current_price None of
                  (Inr ok, s') \<Rightarrow>
                    execute_futures_pairs env rest
                      (s'\<lparr>last_trade_time := Some (now env),
                          total_trades_today := total_trades_today s' + 1\<rparr>)
                | (Inl err, s') \<Rightarrow> execute_futures_pairs env rest s')
         | _ \<Rightarrow> execute_futures_pairs env rest s))"

definition execute_futures_strategy :: "market \<Rightarrow> trading_system \<Rightarrow> trading_system" where
  "execute_futures_strategy env s = execute_futures_pairs env (take 3 (futures_pairs s)) s"

text \<open>
  The spot side: \<open>_calculate_spot_position_size\<close>, \<open>spot_buy\<close>, \<open>spot_sell\<close>
  and \<open>_execute_spot_strategy\<close>. Each returns whether it succeeded; none of them
  touches the position book.
\<close>

definition calculate_spot_position_size :: "trading_system \<Rightarrow> real \<Rightarrow> real" where
  "calculate_spot_position_size s price =
     (if price = 0 then 0
      else
        let max_size_usdt = min (available_balance s * max_position_size s) (max_spot_amount s);
            position_size = max_size_usdt / price
        in if position_size * price < min_spot_amount s then min_spot_amount s / price
           else position_size)"

definition spot_buy ::
  "market \<Rightarrow> trading_system \<Rightarrow> string \<Rightarrow> real \<Rightarrow> real option \<Rightarrow> bool \<times> trading_system" where
  "spot_buy env s symb price quantity_arg =
     (let amount =
            (case quantity_arg of
               None \<Rightarrow> calculate_spot_position_size s price
             | Some q \<Rightarrow> if q = 0 then calculate_spot_position_size s price else q);
          cost = amount * price
      in if cost > available_balance s then (False, s)
         else if cost < min_spot_amount s then (False, s)
         else
           (case okx_spot_buy env symb amount price of
              Raised \<Rightarrow> (False, s)
            | Returned False \<Rightarrow> (False, s)
            | Returned True \<Rightarrow>
                let fee = cost * spot_trading_fee s;
                    held = (case map_of (spot_holdings s) symb of
                              None \<Rightarrow> (0, 0)
                            | Some h \<Rightarrow> (holding_quantity h, total_cost h));
                    total_quantity = fst held + amount;
                    total_cost_new = snd held + cost;
                    holding =
                      \<lparr>holding_symbol = symb, holding_quantity = total_quantity,
                       avg_price = (if total_quantity > 0 then total_cost_new / total_quantity else 0),
                       total_cost = total_cost_new, last_buy_price = price,
                       last_buy_time = now_iso env, last_sell_price = 0, last_sell_time = []\<rparr>
                in (True,
                    s\<lparr>spot_holdings := dict_set (spot_holdings s) symb holding,
                      available_balance := available_balance s - (cost + fee)\<rparr>)))"

definition spot_sell ::
  "market \<Rightarrow> trading_system \<Rightarrow> string \<Rightarrow> real \<Rightarrow> real option \<Rightarrow> bool \<times> trading_system" where
  "spot_sell env s symb price quantity_arg =
     (case map_of (spot_holdings s) symb of
        None \<Rightarrow> (False, s)
      | Some h \<Rightarrow>
          if holding_quantity h \<le> 0 then (False, s)
          else
            let amount = (case quantity_arg of None \<Rightarrow> holding_quantity h | Some q \<Rightarrow> q)
            in if amount > holding_quantity h then (False, s)
               else
                 (case okx_spot_sell env symb amount price of
                    Raised \<Rightarrow> (False, s)
                  | Returned False \<Rightarrow> (False, s)
                  | Returned True \<Rightarrow>
                      let gain = (price - avg_price h) * amount;
                          fee = (amount * price) * spot_trading_fee s;
                          net_pnl = gain - fee;
                          remaining_quantity = holding_quantity h - amount;
                          remaining_cost = total_cost h * (remaining_quantity / holding_quantity h);
                          holding =
                            \<lparr>holding_symbol = symb, holding_quantity = remaining_quantity,
                             avg_price = (if remaining_quantity > 0
                                          then remaining_cost / remaining_quantity else 0),
                             total_cost = remaining_cost, last_buy_price = 0, last_buy_time = [],
                             last_sell_price = price, last_sell_time = now_iso env\<rparr>;
                          available = available_balance s + (amount * price - fee)
                      in (True,
                          s\<lparr>spot_holdings := dict_set (spot_holdings s) symb holding,
                            available_balance := available,
                            balance := available,
                            daily_pnl := daily_pnl s + net_pnl\<rparr>)))"

definition traded :: "market \<Rightarrow> bool \<times> trading_system \<Rightarrow> trading_system" where
  "traded env result =
     (if fst result
      then (snd result)\<lparr>last_trade_time := Some (now env),
                        total_trades_today := total_trades_today (snd result) + 1\<rparr>
      else snd result)"

fun execute_spot_pairs :: "market \<Rightarrow> string list \<Rightarrow> trading_system \<Rightarrow> trading_system" where
  "execute_spot_pairs env [] s = s"
| "execute_spot_pairs env (symb # rest) s =
     (case (fst (trading_signal env symb), get_current_price env symb) of
        (Enter LONG, Some current_price) \<Rightarrow>
          if current_price = 0 then execute_spot_pairs env rest s
          else if (case map_of (spot_holdings s) symb of
                     None \<Rightarrow> True
                   | Some h \<Rightarrow> holding_quantity h = 0)
          then execute_spot_pairs env rest (traded env (spot_buy env s symb current_price None))
          else execute_spot_pairs env rest s
      | (Enter SHORT, Some current_price) \<Rightarrow>
          if current_price = 0 then execute_spot_pairs env rest s
          else
            (case map_of (spot_holdings s) symb of
               None \<Rightarrow> execute_spot_pairs env rest s
             | Some h \<Rightarrow>
                 if holding_quantity h > 0
                 then execute_spot_pairs env rest
                        (traded env (spot_sell env s symb current_price (Some (holding_quantity h))))
                 else execute_spot_pairs env rest s)
      | _ \<Rightarrow> execute_spot_pairs env rest s)"

definition execute_spot_strategy :: "market \<Rightarrow> trading_system \<Rightarrow> trading_system" where
  "execute_spot_strategy env s = execute_spot_pairs env (take 3 (spot_pairs s)) s"

text \<open>\<open>_execute_trading_strategy\<close>.\<close>

definition execute_trading_strategy :: "market \<Rightarrow> trading_system \<Rightarrow> trading_system" where
  "execute_trading_strategy env s =
     (let s1 = (if trading_mode s \<in> set [''both'', ''futures''] \<and> futures_enabled s
                then execute_futures_strategy env s else s)
      in if trading_mode s1 \<in> set [''both'', ''spot''] \<and> spot_enabled s1
         then execute_spot_strategy env s1 else s1)"

text \<open>
  \<open>_cleanup_old_data\<close>, the part that prunes the book: when more than 100 Closed
  positions are held, they are sorted by \<open>closed_at\<close> (a stable sort on the ISO
  strings) and all but the last 100 are deleted. The loop over the dictionary pairs each
  id with the \<open>closed_at\<close> of its position. The eviction of cached prices is outside
  the model, as the cache is.
\<close>

definition cleanup_old_data :: "trading_system \<Rightarrow> trading_system" where
  "cleanup_old_data s =
     (let closed_positions = filter (\<lambda>kv. status (snd kv) = CLOSED) (positions s) in
      if length closed_positions > 100 then
        let closed_with_time = map (\<lambda>kv. (fst kv, closed_at (snd kv))) closed_positions;
            sorted = sort_key snd closed_with_time;
            oldest = take (length sorted - 100) sorted
        in s\<lparr>positions := fold (\<lambda>kv d. dict_del d (fst kv)) oldest (positions s)\<rparr>
      else s)"

text \<open>
  \<open>_update_account_info\<close>: the balances are taken from the gateway when it answers
  with a non-empty dictionary, the daily figures are reset on a new day
  (\<open>_check_daily_reset\<close>), and the P&L of every Open position with a (non-zero) price
  is recomputed (\<open>_update_positions_pnl\<close>).
\<close>

definition check_daily_reset :: "market \<Rightarrow> trading_system \<Rightarrow> trading_system" where
  "check_daily_reset env s =
     (if (case last_reset_date s of None \<Rightarrow> True | Some d \<Rightarrow> d < today env)
      then s\<lparr>daily_pnl := 0, today_start_balance := balance s, total_trades_today := 0,
             last_reset_date := Some (today env)\<rparr>
      else s)"

definition reprice :: "market \<Rightarrow> trading_system \<Rightarrow> trading_position \<Rightarrow> trading_position" where
  "reprice env s position =
     (if status position = OPEN
      then (case get_current_price env (symbol position) of
              None \<Rightarrow> position
            | Some current_price \<Rightarrow>
                if current_price = 0 then position
                else position\<lparr>pnl := calculate_position_pnl s position current_price\<rparr>)
      else position)"

definition update_positions_pnl :: "market \<Rightarrow> trading_system \<Rightarrow> trading_system" where
  "update_positions_pnl env s =
     s\<lparr>positions := map (\<lambda>item. (fst item, reprice env s (snd item))) (positions s)\<rparr>"

definition update_account_info :: "market \<Rightarrow> trading_system \<Rightarrow> trading_system" where
  "update_account_info env s =
     (let s1 =
            (case get_spot_balance env of
               Returned (Some info) \<Rightarrow>
                 s\<lparr>balance := (case total_balance info of Some b \<Rightarrow> b | None \<Rightarrow> balance s),
                   available_balance :=
                     (case available_balance_info info of
                        Some b \<Rightarrow> b
                      | None \<Rightarrow> available_balance s)\<rparr>
             | _ \<Rightarrow> s)
      in update_positions_pnl env (check_daily_reset env s1))"

text \<open>
  \<open>stop_auto_trading\<close>, as far as the state goes: the flag is cleared. Called from
  the loop's own thread, the join that follows raises and is handled.
\<close>

definition stop_auto_trading :: "trading_system \<Rightarrow> trading_system" where
  "stop_auto_trading s = (if \<not> auto_trading s then s else s\<lparr>auto_trading := False\<rparr>)"

text \<open>
  One pass through the body of \<open>while self.auto_trading\<close> in
  \<open>_auto_trading_loop\<close>, with the loop counter. When \<open>_check_risk_limits\<close> is true
  the pass stops auto trading and \<open>continue\<close>s: nothing after the check is run. Every
  method called in the body handles its own exceptions, so the handler of the body is
  never reached.
\<close>

definition loop_iteration :: "market \<Rightarrow> nat \<times> trading_system \<Rightarrow> nat \<times> trading_system" where
  "loop_iteration env state =
     (let loop_count = fst state + 1;
          s1 = (if loop_count mod 10 = 0 then update_account_info env (snd state) else snd state)
      in if check_risk_limits s1 then (loop_count, stop_auto_trading s1)
         else
           let s2 = check_position_stops env s1;
               s3 = (if can_execute_trade env s2 then execute_trading_strategy env s2 else s2);
               s4 = (if loop_count mod 30 = 0 then cleanup_old_data s3 else s3)
           in (loop_count, s4))"

text \<open>
  \<open>_auto_trading_loop\<close>, run against the markets of the coming ticks: the loop takes
  one pass per tick while \<open>auto_trading\<close> is set and ends as soon as it is cleared.
\<close>

fun auto_trading_loop :: "market list \<Rightarrow> nat \<times> trading_system \<Rightarrow> nat \<times> trading_system" where
  "auto_trading_loop [] state = state"
| "auto_trading_loop (env # ticks) state =
     (if auto_trading (snd state) then auto_trading_loop ticks (loop_iteration env state)
      else state)"

text \<open>
  Concrete inputs: a Long position in BTC entered at 100 with its stop at 98, the same
  position after a close at 95, a manager that allows one position and holds either of
  them, and three markets quoting 95 in which the gateway executes, refuses and fails
  the close.
\<close>

definition long_position :: trading_position where
  "long_position =
     \<lparr>position_id = ''LONG_BTC-USDT-SWAP_1700000000'', symbol = ''BTC-USDT-SWAP'',
      position_type = LONG, entry_price = 100, quantity = 1, stop_loss = Num 98,
      take_profit = Num 104, status = OPEN, created_at = ''2023-11-14T22:13:20'', pnl = 0,
      leverage = 10, order_id = ''1'', exit_price = 0, closed_at = [], close_reason = []\<rparr>"

definition closed_long_position :: trading_position where
  "closed_long_position =
     long_position\<lparr>status := CLOSED, exit_price := 95, closed_at := ''2023-11-15T00:00:00'',
       pnl := - 508 / 10, close_reason := ''STOP_LOSS''\<rparr>"

definition one_open_system :: trading_system where
  "one_open_system =
     default_system\<lparr>max_positions := 1,
       positions := [(''LONG_BTC-USDT-SWAP_1700000000'', long_position)]\<rparr>"

definition one_closed_system :: trading_system where
  "one_closed_system =
     default_system\<lparr>max_positions := 1,
       positions := [(''LONG_BTC-USDT-SWAP_1700000000'', closed_long_position)]\<rparr>"

definition market_95 :: market where
  "market_95 =
     \<lparr>now = 1700006400, now_iso = ''2023-11-15T00:00:00'', today = 19676,
      get_current_price = (\<lambda>symb. Some 95),
      futures_close_position = (\<lambda>symb side. Returned True),
      futures_set_leverage = (\<lambda>symb n. Returned True),
      futures_create_order = (\<lambda>symb side amount n. Returned (Some ''2'')),
      okx_spot_buy = (\<lambda>symb amount price. Returned True),
      okx_spot_sell = (\<lambda>symb amount price. Returned True),
      get_spot_balance = Returned None,
      trading_signal = (\<lambda>symb. (Enter LONG, 9 / 10)),
      stop_data = no_data\<rparr>"

definition market_95_refusing :: market where
  "market_95_refusing = market_95\<lparr>futures_close_position := (\<lambda>symb side. Returned False)\<rparr>"

definition market_95_failing :: market where
  "market_95_failing = market_95\<lparr>futures_close_position := (\<lambda>symb side. Raised)\<rparr>"

text \<open>
  Scenario D: the manager with the default limits (at most 5 positions, daily loss limit
  5 percent) holds the Long position, started the day with a balance of 100, has
  realized a loss of 6 and is auto trading.
\<close>

definition scenario_d_system :: trading_system where
  "scenario_d_system =
     default_system\<lparr>daily_pnl := - 6, today_start_balance := 100, balance := 94,
       available_balance := 94, auto_trading := True,
       positions := [(''LONG_BTC-USDT-SWAP_1700000000'', long_position)]\<rparr>"

text \<open>The manager that allows one position and holds one, while auto trading.\<close>

definition one_open_trading_system :: trading_system where
  "one_open_trading_system = one_open_system\<lparr>auto_trading := True\<rparr>"

section \<open>Claims about the analyzer\<close>

text \<open>
  C9. A price history with fewer than 100 rows makes \<open>calculate_smc_levels\<close> fail
  with the insufficient-data outcome, whatever the analysis pipeline would compute, so no
  structure is returned; a history of at least 100 rows never fails for this reason.
\<close>

theorem insufficient_data_iff_short_history:
  "(length ohlcv_data < 100 \<longrightarrow>
      calculate_smc_levels pipeline symb ohlcv_data = Inl InsufficientData)
   \<and> (100 \<le> length ohlcv_data \<longrightarrow>
      calculate_smc_levels pipeline symb ohlcv_data \<noteq> Inl InsufficientData)"
  by (auto simp: calculate_smc_levels_def split: option.splits)

theorem insufficient_data_iff_short_history_witness:
  "calculate_smc_levels (\<lambda>s d. Some (length d)) ''BTC-USDT-SWAP'' (replicate 50 [0, 1, 2, 1, 1, 5])
     = Inl InsufficientData
   \<and> calculate_smc_levels (\<lambda>s d. Some (length d)) ''BTC-USDT-SWAP'' (replicate 100 [0, 1, 2, 1, 1, 5])
     = Inr 100"
proof -
  have short: "length (replicate 50 [0, 1, 2, 1, 1, 5::real]) < 100" by simp
  have long: "100 \<le> length (replicate 100 [0, 1, 2, 1, 1, 5::real])" by simp
  from insufficient_data_iff_short_history
    [of "replicate 50 [0, 1, 2, 1, 1, 5]" "\<lambda>s d. Some (length d)" "''BTC-USDT-SWAP''"] short
  have a: "calculate_smc_levels (\<lambda>s d. Some (length d)) ''BTC-USDT-SWAP''
             (replicate 50 [0, 1, 2, 1, 1, 5]) = Inl InsufficientData"
    by blast
  have b: "calculate_smc_levels (\<lambda>s d. Some (length d)) ''BTC-USDT-SWAP''
             (replicate 100 [0, 1, 2, 1, 1, 5]) = Inr 100"
    using long by (simp add: calculate_smc_levels_def)
  from a b show ?thesis by simp
qed

section \<open>Claims about position sizing and the break-even stop\<close>

text \<open>
  C6, as stated, fails. With a balance of 1000, 2 percent risk, entry price 100 and a
  stop at 98, the rule of the specification (risk amount 20 over the stop distance 2,
  capped at 20 percent of the balance) gives 2 units, and the source gives 0.2 units: it
  divides the risk amount by the entry price and never looks at a stop.
\<close>

theorem position_size_ignores_stop_distance:
  "calculate_position_size default_system 100 = 2 / 10
   \<and> spec_position_size (available_balance default_system) (risk_percent default_system / 100)
        100 98 (max_position_size default_system) (1 / 1000) = 2
   \<and> calculate_position_size default_system 100
       \<noteq> spec_position_size (available_balance default_system) (risk_percent default_system / 100)
            100 98 (max_position_size default_system) (1 / 1000)"
  by (simp add: calculate_position_size_def spec_position_size_def default_system_def Let_def)

text \<open>
  C6, amended. For a non-zero price the size is the risk amount
  \<open>available_balance * risk_percent / 100\<close> divided by the entry price, capped at
  \<open>available_balance * max_position_size / price\<close> and then floored at 0.001; so for a
  positive price the value of the position is the risk amount, capped at the
  max-position-size fraction of the balance, unless the floor applies. A price of zero
  gives size 0.
\<close>

theorem position_size_formula:
  "(price \<noteq> 0 \<longrightarrow>
      calculate_position_size s price =
        max (min (available_balance s * risk_percent s / 100 / price)
                 (available_balance s * max_position_size s / price)) (1 / 1000))
   \<and> (0 < price \<longrightarrow>
      calculate_position_size s price * price =
        max (min (available_balance s * risk_percent s / 100)
                 (available_balance s * max_position_size s)) (price / 1000))
   \<and> calculate_position_size s 0 = 0"
proof (intro conjI impI)
  assume "price \<noteq> 0"
  then show "calculate_position_size s price =
        max (min (available_balance s * risk_percent s / 100 / price)
                 (available_balance s * max_position_size s / price)) (1 / 1000)"
    by (simp add: calculate_position_size_def Let_def)
next
  assume pos: "0 < price"
  define r where "r = available_balance s * risk_percent s / 100"
  define m where "m = available_balance s * max_position_size s"
  have size: "calculate_position_size s price = max (min (r / price) (m / price)) (1 / 1000)"
    using pos by (simp add: calculate_position_size_def Let_def r_def m_def)
  have "min (r / price) (m / price) = min r m / price"
    using pos by (simp add: min_def divide_le_cancel)
  then have "max (min (r / price) (m / price)) (1 / 1000) * price
               = max (min r m / price * price) (1 / 1000 * price)"
    using pos by (simp add: max_def)
  also have "\<dots> = max (min r m) (price / 1000)"
    using pos by simp
  finally show "calculate_position_size s price * price =
        max (min (available_balance s * risk_percent s / 100)
                 (available_balance s * max_position_size s)) (price / 1000)"
    by (simp add: size r_def m_def)
next
  show "calculate_position_size s 0 = 0"
    by (simp add: calculate_position_size_def)
qed

theorem position_size_formula_witness:
  "(100::real) \<noteq> 0 \<and> 0 < (100::real)
   \<and> calculate_position_size default_system 100 = 2 / 10
   \<and> calculate_position_size default_system 100 * 100 = 20"
  using position_size_formula [of 100 default_system]
  by (simp add: default_system_def)

text \<open>
  C7. With the default settings, a Long entered at 100 whose price has fallen to 90 has an
  unrealized loss of 10 percent, far below the 1 percent profit threshold, and still
  receives the break-even stop 100.1, above the current price: the source compares
  \<open>abs(current_price - entry_price) / entry_price\<close> with the threshold, so a loss
  counts as a profit.
\<close>

theorem break_even_stop_on_a_loss:
  "unrealized_profit_fraction LONG 100 90 < 1 / 100
   \<and> calculate_break_even_stop initial_settings ''BTC-USDT-SWAP'' LONG 100 90 (1 / 100)
       = Some (1001 / 10)"
  by (simp add: calculate_break_even_stop_def unrealized_profit_fraction_def
      initial_settings_def Let_def)

text \<open>
  The other half holds: with the feature enabled and a positive entry price, a position
  whose unrealized profit has reached a threshold that is not negative receives the stop
  just beyond its entry on the favourable side. A Long entered at 100 and now at 110
  receives 100.1.
\<close>

lemma break_even_stop_on_a_profit:
  assumes "break_even_enabled st" and "0 < entry" and "0 \<le> threshold"
    and "threshold \<le> unrealized_profit_fraction ptype entry current_price"
  shows "calculate_break_even_stop st symb ptype entry current_price threshold
      = Some (case ptype of LONG \<Rightarrow> entry * (1001 / 1000) | SHORT \<Rightarrow> entry * (999 / 1000))"
proof -
  have "unrealized_profit_fraction ptype entry current_price \<le> \<bar>current_price - entry\<bar> / entry"
    using assms(2)
    by (cases ptype) (simp_all add: unrealized_profit_fraction_def divide_right_mono)
  with assms(4) have "threshold \<le> \<bar>current_price - entry\<bar> / entry" by simp
  with assms(1,2) show ?thesis
    by (cases ptype) (simp_all add: calculate_break_even_stop_def Let_def)
qed

lemma break_even_stop_scenario_e:
  "calculate_break_even_stop initial_settings ''BTC-USDT-SWAP'' LONG 100 110 (1 / 100)
     = Some (1001 / 10)"
  by (simp add: calculate_break_even_stop_def initial_settings_def Let_def)

section \<open>Dictionaries\<close>

lemmas example_defs =
  one_open_system_def one_closed_system_def long_position_def closed_long_position_def
  default_system_def market_95_def market_95_refusing_def market_95_failing_def

lemma map_of_dict_set_same: "map_of (dict_set d k v) k = Some v"
  by (induction d) auto

lemma map_of_dict_set_other: "k' \<noteq> k \<Longrightarrow> map_of (dict_set d k v) k' = map_of d k'"
  by (induction d) auto

lemma length_dict_set_present: "map_of d k = Some v' \<Longrightarrow> length (dict_set d k v) = length d"
  by (induction d) (auto split: if_splits)

lemma keys_dict_set_present: "map_of d k = Some v' \<Longrightarrow> map fst (dict_set d k v) = map fst d"
  by (induction d) (auto split: if_splits)

lemma length_dict_set_le: "length (dict_set d k v) \<le> Suc (length d)"
  by (induction d) auto

lemma map_fst_dict_set:
  "map fst (dict_set d k v) = (if k \<in> set (map fst d) then map fst d else map fst d @ [k])"
  by (induction d) force+

lemma keys_dict_set: "set (map fst (dict_set d k v)) = insert k (set (map fst d))"
  by (auto simp: map_fst_dict_set)

lemma distinct_dict_set: "distinct (map fst d) \<Longrightarrow> distinct (map fst (dict_set d k v))"
  by (auto simp: map_fst_dict_set)

section \<open>Claims about the stop engine\<close>

lemma py_lt_Num: "py_lt (Num x) (Num y) = (x < y)"
  by (simp add: py_lt_def)

lemma py_le_Num: "py_le (Num x) (Num y) = (x \<le> y)"
  by (simp add: py_le_def)

lemma py_le_NaN: "\<not> py_le NaN b" "\<not> py_le a NaN"
  by (simp_all add: py_le_def split: pyfloat.splits)

lemma py_max_Num: "py_max (Num x) (Num y) = Num (max x y)"
  by (simp add: py_max_def py_lt_def max_def)

lemma py_min_Num: "py_min (Num x) (Num y) = Num (min x y)"
  by (simp add: py_min_def py_lt_def min_def)

lemma py_max_number: "\<exists>v. py_max (Num x) b = Num v \<and> x \<le> v \<and> (\<forall>y. b = Num y \<longrightarrow> y \<le> v)"
  by (cases b) (auto simp: py_max_def py_lt_def)

lemma atr_defined:
  "0 < atr_period st \<Longrightarrow> atr_period st \<le> frame_rows f \<Longrightarrow> calculate_atr st f = Num (true_range_mean f)"
  by (simp add: calculate_atr_def)

lemma volatility_factor_pos: "0 < calculate_volatility_factor st f"
  by (simp add: calculate_volatility_factor_def Let_def)

lemma dynamic_long_pos:
  assumes "0 < entry" "max_risk_per_trade st < 1" "0 < atr_period st"
    and "\<forall>f. get_recent_ohlcv env symb 50 = Some f \<longrightarrow> atr_period st \<le> frame_rows f"
  shows "\<exists>d. calculate_dynamic_stop_loss st env symb LONG entry current_price = Num d \<and> 0 < d"
proof (cases "get_recent_ohlcv env symb 50")
  case None
  have "0 < calculate_fixed_stop_loss entry LONG (2 / 100)"
    using assms(1) by (simp add: calculate_fixed_stop_loss_def)
  with None show ?thesis
    by (simp add: calculate_dynamic_stop_loss_def)
next
  case (Some f)
  with assms(3,4) have atr: "calculate_atr st f = Num (true_range_mean f)"
    by (simp add: atr_defined)
  have cap: "0 < entry * (1 - max_risk_per_trade st)"
    using assms(1,2) by simp
  have fixed: "0 < calculate_fixed_stop_loss entry LONG (2 / 100)"
    using assms(1) by (simp add: calculate_fixed_stop_loss_def)
  show ?thesis
    using Some atr cap fixed
    by (simp add: calculate_dynamic_stop_loss_def Let_def py_map_def py_max_Num less_max_iff_disj)
qed

lemma dynamic_short_pos:
  assumes "0 < entry" "0 \<le> atr_multiplier st" "0 \<le> max_risk_per_trade st" "0 < atr_period st"
    and "\<forall>f. get_recent_ohlcv env symb 50 = Some f
           \<longrightarrow> atr_period st \<le> frame_rows f \<and> 0 \<le> true_range_mean f"
  shows "\<exists>d. calculate_dynamic_stop_loss st env symb SHORT entry current_price = Num d \<and> 0 < d"
proof (cases "get_recent_ohlcv env symb 50")
  case None
  have "0 < calculate_fixed_stop_loss entry SHORT (2 / 100)"
    using assms(1) by (simp add: calculate_fixed_stop_loss_def)
  with None show ?thesis
    by (simp add: calculate_dynamic_stop_loss_def)
next
  case (Some f)
  with assms(4,5) have atr: "calculate_atr st f = Num (true_range_mean f)"
    and mean: "0 \<le> true_range_mean f"
    by (simp_all add: atr_defined)
  have "0 \<le> true_range_mean f * atr_multiplier st * calculate_volatility_factor st f"
    using mean assms(2) volatility_factor_pos [of st f] by simp
  moreover have "0 < entry * (1 + max_risk_per_trade st)"
    using assms(1,3) by simp
  moreover have "0 < calculate_fixed_stop_loss entry SHORT (2 / 100)"
    using assms(1) by (simp add: calculate_fixed_stop_loss_def)
  ultimately show ?thesis using Some atr assms(1)
    by (simp add: calculate_dynamic_stop_loss_def Let_def py_map_def py_min_Num min_def)
qed

lemma trailing_long:
  "\<exists>t. calculate_trailing_stop_loss st env symb LONG entry current_price (Some (Num p)) = Some (Num t)
       \<and> p \<le> t"
  by (auto simp: calculate_trailing_stop_loss_def Let_def py_map_def py_lt_def
      split: option.splits pyfloat.splits)

lemma trailing_short:
  "\<exists>t. calculate_trailing_stop_loss st env symb SHORT entry current_price (Some (Num p)) = Some (Num t)
       \<and> t \<le> p"
  by (auto simp: calculate_trailing_stop_loss_def Let_def py_map_def py_lt_def
      split: option.splits pyfloat.splits)

lemma trailing_short_pos:
  assumes "0 < entry" "0 < current_price" "0 \<le> atr_multiplier st" "0 < atr_period st"
    and "\<forall>f. get_recent_ohlcv env symb 20 = Some f
           \<longrightarrow> atr_period st \<le> frame_rows f \<and> 0 \<le> true_range_mean f"
    and "\<forall>p. previous_stop = Some p \<longrightarrow> py_lt (Num 0) p"
    and "calculate_trailing_stop_loss st env symb SHORT entry current_price previous_stop = Some t"
  shows "py_lt (Num 0) t"
proof (cases "trailing_enabled st \<and> get_recent_ohlcv env symb 20 \<noteq> None")
  case False
  then have "calculate_trailing_stop_loss st env symb SHORT entry current_price previous_stop
      = previous_stop"
    by (auto simp: calculate_trailing_stop_loss_def)
  with assms(6,7) show ?thesis by simp
next
  case True
  then obtain f where f: "get_recent_ohlcv env symb 20 = Some f" by auto
  with assms(4,5) have atr: "calculate_atr st f = Num (true_range_mean f)"
    and mean: "0 \<le> true_range_mean f"
    by (simp_all add: atr_defined)
  have dist: "0 \<le> true_range_mean f * atr_multiplier st * (7 / 10)"
    using mean assms(3) by simp
  show ?thesis
  proof (cases previous_stop)
    case None
    then have "t = Num (entry + true_range_mean f * atr_multiplier st * (7 / 10))"
      using assms(7) True f atr
      by (simp add: calculate_trailing_stop_loss_def Let_def py_map_def)
    then show ?thesis using dist assms(1) by (simp add: py_lt_Num add_pos_nonneg)
  next
    case (Some p)
    with assms(6) have p: "py_lt (Num 0) p" by simp
    have new: "py_lt (Num 0) (Num (current_price + true_range_mean f * atr_multiplier st * (7 / 10)))"
      using dist assms(2) by (simp add: py_lt_Num add_pos_nonneg)
    show ?thesis
      using assms(7) True f atr Some p new
      by (auto simp: calculate_trailing_stop_loss_def Let_def py_map_def split: if_splits)
  qed
qed

lemma break_even_short_pos:
  "0 < entry \<Longrightarrow> calculate_break_even_stop st symb SHORT entry current_price th = Some b \<Longrightarrow> 0 < b"
  by (auto simp: calculate_break_even_stop_def Let_def split: if_splits)

lemma or_else_cases: "or_else x y = y \<or> (\<exists>v. x = Some v \<and> v \<noteq> Num 0 \<and> or_else x y = v)"
  by (auto simp: or_else_def split: option.splits)

lemma update_raises:
  "body_raises env = Some point \<Longrightarrow>
   fst (update_position_stop_loss eng env pid symb ptype entry current_price)
     = Num (calculate_fixed_stop_loss entry ptype (2 / 100))"
  by (cases point) (simp_all add: update_position_stop_loss_def)

lemma update_stores:
  assumes "update_body eng env pid symb ptype entry current_price = (r, eng')"
  shows "\<exists>i. map_of (position_stops eng') pid = Some i \<and> current_stop i = r"
    and "settings eng' = settings eng"
  using assms by (auto simp: update_body_def Let_def map_of_dict_set_same)

lemma long_step:
  assumes entry: "0 < entry"
    and risk: "max_risk_per_trade (settings eng) < 1"
    and period: "0 < atr_period (settings eng)"
    and rows: "\<forall>n \<in> {20, 50}. \<forall>f. get_recent_ohlcv env symb n = Some f \<longrightarrow> atr_period (settings eng) \<le> frame_rows f"
    and run: "update_body eng env pid symb LONG entry current_price = (r, eng')"
  shows "\<exists>v. r = Num v"
    and "\<forall>i. map_of (position_stops eng) pid = Some i \<and> current_stop i \<noteq> NaN
           \<longrightarrow> py_le (current_stop i) r"
proof -
  let ?dyn = "calculate_dynamic_stop_loss (settings eng) env symb LONG entry current_price"
  let ?prev = "map_option current_stop (map_of (position_stops eng) pid)"
  let ?tr = "calculate_trailing_stop_loss (settings eng) env symb LONG entry current_price ?prev"
  let ?be = "calculate_break_even_stop (settings eng) symb LONG entry current_price (1 / 100)"
  have r: "r = py_max (py_max ?dyn (or_else ?tr ?dyn)) (or_else (map_option Num ?be) ?dyn)"
    using run by (auto simp: update_body_def Let_def)
  obtain d where d: "?dyn = Num d" "0 < d"
    using dynamic_long_pos [OF entry risk period, of env symb current_price] rows by blast
  obtain m where m: "py_max (Num d) (or_else ?tr (Num d)) = Num m" "d \<le> m"
    "\<forall>y. or_else ?tr (Num d) = Num y \<longrightarrow> y \<le> m"
    using py_max_number [of d "or_else ?tr (Num d)"] by blast
  obtain v where v: "py_max (Num m) (or_else (map_option Num ?be) (Num d)) = Num v" "m \<le> v"
    using py_max_number [of m "or_else (map_option Num ?be) (Num d)"] by blast
  have rv: "r = Num v" unfolding r d(1) m(1) v(1) ..
  then show "\<exists>v. r = Num v" ..
  show "\<forall>i. map_of (position_stops eng) pid = Some i \<and> current_stop i \<noteq> NaN
           \<longrightarrow> py_le (current_stop i) r"
  proof (intro allI impI)
    fix i assume "map_of (position_stops eng) pid = Some i \<and> current_stop i \<noteq> NaN"
    then obtain p where i: "map_of (position_stops eng) pid = Some i" and p: "current_stop i = Num p"
      by (cases "current_stop i") auto
    then have prev: "?prev = Some (Num p)" by simp
    obtain t where t: "?tr = Some (Num t)" "p \<le> t"
      using trailing_long [of "settings eng" env symb entry current_price p]
      unfolding prev by blast
    have "p \<le> m"
    proof (cases "t = 0")
      case True
      with t(2) d(2) m(2) show ?thesis by simp
    next
      case False
      then have "or_else ?tr (Num d) = Num t" unfolding t(1) by (simp add: or_else_def)
      with m(3) t(2) show ?thesis by fastforce
    qed
    with v(2) show "py_le (current_stop i) r"
      unfolding rv p by (simp add: py_le_Num)
  qed
qed

lemma short_step:
  assumes entry: "0 < entry"
    and price: "0 < current_price"
    and mult: "0 \<le> atr_multiplier (settings eng)"
    and risk: "0 \<le> max_risk_per_trade (settings eng)"
    and period: "0 < atr_period (settings eng)"
    and atr: "\<forall>n \<in> {20, 50}. \<forall>f. get_recent_ohlcv env symb n = Some f
                \<longrightarrow> atr_period (settings eng) \<le> frame_rows f \<and> 0 \<le> true_range_mean f"
    and stored: "\<forall>i. map_of (position_stops eng) pid = Some i \<longrightarrow> py_lt (Num 0) (current_stop i)"
    and run: "update_body eng env pid symb SHORT entry current_price = (r, eng')"
  shows "py_lt (Num 0) r"
    and "\<forall>i. map_of (position_stops eng) pid = Some i \<longrightarrow> py_le r (current_stop i)"
proof -
  let ?dyn = "calculate_dynamic_stop_loss (settings eng) env symb SHORT entry current_price"
  let ?prev = "map_option current_stop (map_of (position_stops eng) pid)"
  let ?tr = "calculate_trailing_stop_loss (settings eng) env symb SHORT entry current_price ?prev"
  let ?be = "calculate_break_even_stop (settings eng) symb SHORT entry current_price (1 / 100)"
  have r: "r = py_min (py_min ?dyn (or_else ?tr ?dyn)) (or_else (map_option Num ?be) ?dyn)"
    using run by (auto simp: update_body_def Let_def)
  obtain d where d: "?dyn = Num d" "0 < d"
    using dynamic_short_pos [OF entry mult risk period, of env symb current_price] atr by blast
  have prev_pos: "\<forall>p. ?prev = Some p \<longrightarrow> py_lt (Num 0) p"
    using stored by auto
  have tr_pos: "\<And>t. ?tr = Some t \<Longrightarrow> py_lt (Num 0) t"
    using trailing_short_pos [OF entry price mult period _ prev_pos] atr by blast
  obtain a where a: "or_else ?tr (Num d) = Num a" "0 < a"
    using or_else_cases [of ?tr "Num d"] d(2) tr_pos
    by (cases "or_else ?tr (Num d)") (auto simp: py_lt_def split: pyfloat.splits)
  obtain b where b: "or_else (map_option Num ?be) (Num d) = Num b" "0 < b"
    using or_else_cases [of "map_option Num ?be" "Num d"] d(2) break_even_short_pos [OF entry]
    by (cases "or_else (map_option Num ?be) (Num d)") auto
  have rv: "r = Num (min (min d a) b)"
    unfolding r d(1) a(1) b(1) by (simp add: py_min_Num)
  show "py_lt (Num 0) r" unfolding rv using d(2) a(2) b(2) by (simp add: py_lt_Num)
  show "\<forall>i. map_of (position_stops eng) pid = Some i \<longrightarrow> py_le r (current_stop i)"
  proof (intro allI impI)
    fix i assume i: "map_of (position_stops eng) pid = Some i"
    with stored obtain p where p: "current_stop i = Num p" "0 < p"
      by (cases "current_stop i") (auto simp: py_lt_def)
    with i have prev: "?prev = Some (Num p)" by simp
    obtain t where t: "?tr = Some (Num t)" "t \<le> p"
      using trailing_short [of "settings eng" env symb entry current_price p]
      unfolding prev by blast
    from tr_pos [OF t(1)] have "or_else ?tr (Num d) = Num t"
      unfolding t(1) by (auto simp: or_else_def py_lt_Num)
    with a(1) have "a = t" by simp
    with t(2) show "py_le r (current_stop i)"
      unfolding rv p(1) by (simp add: py_le_Num min_le_iff_disj)
  qed
qed

lemma completed_long:
  assumes "0 < entry"
    and "max_risk_per_trade (settings eng) < 1"
    and "0 < atr_period (settings eng)"
    and "\<forall>(env, current_price) \<in> set calls.
           \<forall>n \<in> {20, 50}. \<forall>f. get_recent_ohlcv env symb n = Some f \<longrightarrow> atr_period (settings eng) \<le> frame_rows f"
  shows "sorted_wrt py_le (completed_stops eng pid symb LONG entry calls)
    \<and> NaN \<notin> set (completed_stops eng pid symb LONG entry calls)
    \<and> (\<forall>i r. map_of (position_stops eng) pid = Some i \<and> current_stop i \<noteq> NaN
          \<and> r \<in> set (completed_stops eng pid symb LONG entry calls) \<longrightarrow> py_le (current_stop i) r)"
  using assms(2-)
proof (induction calls arbitrary: eng)
  case Nil
  then show ?case by simp
next
  case (Cons call calls)
  obtain env current_price where call: "call = (env, current_price)" by (cases call)
  obtain r eng' where body: "update_body eng env pid symb LONG entry current_price = (r, eng')"
    by (cases "update_body eng env pid symb LONG entry current_price")
  have rest: "\<forall>(env, current_price) \<in> set calls.
           \<forall>n \<in> {20, 50}. \<forall>f. get_recent_ohlcv env symb n = Some f \<longrightarrow> atr_period (settings eng) \<le> frame_rows f"
    using Cons.prems(3) by simp
  have rows: "\<forall>n \<in> {20, 50}. \<forall>f. get_recent_ohlcv env symb n = Some f \<longrightarrow> atr_period (settings eng) \<le> frame_rows f"
    using Cons.prems(3) call by auto
  from update_stores [OF body] obtain i' where
    i': "map_of (position_stops eng') pid = Some i'" "current_stop i' = r"
    and st: "settings eng' = settings eng" by blast
  have number: "\<exists>v. r = Num v"
    and step: "\<forall>i. map_of (position_stops eng) pid = Some i \<and> current_stop i \<noteq> NaN
                 \<longrightarrow> py_le (current_stop i) r"
    using long_step [OF assms(1) Cons.prems(1,2) rows body] by blast+
  from number have r_number: "r \<noteq> NaN" by auto
  from Cons.IH [of eng'] Cons.prems(1,2) st rest
  have sorted': "sorted_wrt py_le (completed_stops eng' pid symb LONG entry calls)"
    and number': "NaN \<notin> set (completed_stops eng' pid symb LONG entry calls)"
    and above': "\<forall>x \<in> set (completed_stops eng' pid symb LONG entry calls). py_le r x"
    using i' r_number by auto
  from Cons.IH [of eng] Cons.prems(1,2) rest
  have sorted0: "sorted_wrt py_le (completed_stops eng pid symb LONG entry calls)"
    and number0: "NaN \<notin> set (completed_stops eng pid symb LONG entry calls)"
    and above0: "\<forall>i x. map_of (position_stops eng) pid = Some i \<and> current_stop i \<noteq> NaN
          \<and> x \<in> set (completed_stops eng pid symb LONG entry calls) \<longrightarrow> py_le (current_stop i) x"
    by auto
  have trans: "\<And>a x. py_le a r \<Longrightarrow> py_le r x \<Longrightarrow> py_le a x"
    by (auto simp: py_le_def split: pyfloat.splits)
  have above_all: "\<forall>i x. map_of (position_stops eng) pid = Some i \<and> current_stop i \<noteq> NaN
          \<and> x \<in> set (completed_stops eng' pid symb LONG entry calls) \<longrightarrow> py_le (current_stop i) x"
    using step above' trans by blast
  show ?case
  proof (cases "body_raises env")
    case None
    then have "completed_stops eng pid symb LONG entry (call # calls)
            = r # completed_stops eng' pid symb LONG entry calls"
      using body call by (simp add: update_position_stop_loss_def)
    with sorted' number' above' step r_number above_all show ?thesis by auto
  next
    case (Some point)
    show ?thesis
    proof (cases point)
      case Before_store
      then have "completed_stops eng pid symb LONG entry (call # calls)
            = completed_stops eng pid symb LONG entry calls"
        using Some call by (simp add: update_position_stop_loss_def)
      with sorted0 number0 above0 show ?thesis by simp
    next
      case After_store
      then have "completed_stops eng pid symb LONG entry (call # calls)
            = completed_stops eng' pid symb LONG entry calls"
        using Some call body by (simp add: update_position_stop_loss_def)
      with sorted' number' above_all show ?thesis by simp
    qed
  qed
qed

lemma completed_short:
  assumes "0 < entry"
    and "0 \<le> atr_multiplier (settings eng)" and "0 \<le> max_risk_per_trade (settings eng)"
    and "0 < atr_period (settings eng)"
    and "\<forall>i. map_of (position_stops eng) pid = Some i \<longrightarrow> py_lt (Num 0) (current_stop i)"
    and "\<forall>(env, current_price) \<in> set calls. 0 < current_price
           \<and> (\<forall>n \<in> {20, 50}. \<forall>f. get_recent_ohlcv env symb n = Some f
                 \<longrightarrow> atr_period (settings eng) \<le> frame_rows f \<and> 0 \<le> true_range_mean f)"
  shows "sorted_wrt (\<lambda>a b. py_le b a) (completed_stops eng pid symb SHORT entry calls)
    \<and> (\<forall>r \<in> set (completed_stops eng pid symb SHORT entry calls). py_lt (Num 0) r)
    \<and> (\<forall>i r. map_of (position_stops eng) pid = Some i
          \<and> r \<in> set (completed_stops eng pid symb SHORT entry calls) \<longrightarrow> py_le r (current_stop i))"
  using assms(2-)
proof (induction calls arbitrary: eng)
  case Nil
  then show ?case by simp
next
  case (Cons call calls)
  obtain env current_price where call: "call = (env, current_price)" by (cases call)
  obtain r eng' where body: "update_body eng env pid symb SHORT entry current_price = (r, eng')"
    by (cases "update_body eng env pid symb SHORT entry current_price")
  have rest: "\<forall>(env, current_price) \<in> set calls. 0 < current_price
           \<and> (\<forall>n \<in> {20, 50}. \<forall>f. get_recent_ohlcv env symb n = Some f
                 \<longrightarrow> atr_period (settings eng) \<le> frame_rows f \<and> 0 \<le> true_range_mean f)"
    using Cons.prems(5) by simp
  have price: "0 < current_price"
    and atr: "\<forall>n \<in> {20, 50}. \<forall>f. get_recent_ohlcv env symb n = Some f
                \<longrightarrow> atr_period (settings eng) \<le> frame_rows f \<and> 0 \<le> true_range_mean f"
    using Cons.prems(5) call by auto
  from update_stores [OF body] obtain i' where
    i': "map_of (position_stops eng') pid = Some i'" "current_stop i' = r"
    and st: "settings eng' = settings eng" by blast
  have pos: "py_lt (Num 0) r"
    and step: "\<forall>i. map_of (position_stops eng) pid = Some i \<longrightarrow> py_le r (current_stop i)"
    using short_step [OF assms(1) price Cons.prems(1,2,3) atr Cons.prems(4) body] by blast+
  have stored': "\<forall>i. map_of (position_stops eng') pid = Some i \<longrightarrow> py_lt (Num 0) (current_stop i)"
    using i' pos by simp
  from Cons.IH [of eng'] Cons.prems(1,2,3) st stored' rest
  have sorted': "sorted_wrt (\<lambda>a b. py_le b a) (completed_stops eng' pid symb SHORT entry calls)"
    and pos': "\<forall>x \<in> set (completed_stops eng' pid symb SHORT entry calls). py_lt (Num 0) x"
    and below': "\<forall>x \<in> set (completed_stops eng' pid symb SHORT entry calls). py_le x r"
    using i' by auto
  from Cons.IH [of eng] Cons.prems(1-4) rest
  have sorted0: "sorted_wrt (\<lambda>a b. py_le b a) (completed_stops eng pid symb SHORT entry calls)"
    and pos0: "\<forall>x \<in> set (completed_stops eng pid symb SHORT entry calls). py_lt (Num 0) x"
    and below0: "\<forall>i x. map_of (position_stops eng) pid = Some i
          \<and> x \<in> set (completed_stops eng pid symb SHORT entry calls) \<longrightarrow> py_le x (current_stop i)"
    by auto
  have trans: "\<And>a x. py_le x r \<Longrightarrow> py_le r a \<Longrightarrow> py_le x a"
    by (auto simp: py_le_def split: pyfloat.splits)
  have below_all: "\<forall>i x. map_of (position_stops eng) pid = Some i
          \<and> x \<in> set (completed_stops eng' pid symb SHORT entry calls) \<longrightarrow> py_le x (current_stop i)"
    using step below' trans by blast
  show ?case
  proof (cases "body_raises env")
    case None
    then have "completed_stops eng pid symb SHORT entry (call # calls)
            = r # completed_stops eng' pid symb SHORT entry calls"
      using body call by (simp add: update_position_stop_loss_def)
    with sorted' pos' below' step pos below_all show ?thesis by auto
  next
    case (Some point)
    show ?thesis
    proof (cases point)
      case Before_store
      then have "completed_stops eng pid symb SHORT entry (call # calls)
            = completed_stops eng pid symb SHORT entry calls"
        using Some call by (simp add: update_position_stop_loss_def)
      with sorted0 pos0 below0 show ?thesis by simp
    next
      case After_store
      then have "completed_stops eng pid symb SHORT entry (call # calls)
            = completed_stops eng' pid symb SHORT entry calls"
        using Some call body by (simp add: update_position_stop_loss_def)
      with sorted' pos' below_all show ?thesis by simp
    qed
  qed
qed

lemmas stop_example_defs =
  initial_engine_def initial_settings_def no_data_def steady_data_def flat_data_def
  failing_call_def short_history_def

text \<open>
  Single calls for a Long entered at 100, each with the engine it starts from and the
  engine it leaves: without market data at price 100, with market data at price 110,
  with a history of 5 rows at price 110, and with market data again.
\<close>

lemma long_first_call:
  "update_position_stop_loss initial_engine no_data ''LONG_BTC-USDT-SWAP_1700000000''
     ''BTC-USDT-SWAP'' LONG 100 100
   = (Num 98,
      \<lparr>settings = initial_settings,
       position_stops = [(''LONG_BTC-USDT-SWAP_1700000000'',
         \<lparr>info_symbol = ''BTC-USDT-SWAP'', info_position_type = LONG, info_entry_price = 100,
          current_stop = Num 98, dynamic_stop = Num 98, trailing_stop = None,
          break_even_stop = None, last_updated = ''2024-01-01T00:00:00''\<rparr>)]\<rparr>)"
  by code_simp

lemma long_second_call:
  "update_position_stop_loss
     \<lparr>settings = initial_settings,
      position_stops = [(''LONG_BTC-USDT-SWAP_1700000000'',
        \<lparr>info_symbol = ''BTC-USDT-SWAP'', info_position_type = LONG, info_entry_price = 100,
         current_stop = Num 98, dynamic_stop = Num 98, trailing_stop = None,
         break_even_stop = None, last_updated = ''2024-01-01T00:00:00''\<rparr>)]\<rparr>
     steady_data ''LONG_BTC-USDT-SWAP_1700000000'' ''BTC-USDT-SWAP'' LONG 100 110
   = (Num (543 / 5),
      \<lparr>settings = initial_settings,
       position_stops = [(''LONG_BTC-USDT-SWAP_1700000000'',
         \<lparr>info_symbol = ''BTC-USDT-SWAP'', info_position_type = LONG, info_entry_price = 100,
          current_stop = Num (543 / 5), dynamic_stop = Num 98,
          trailing_stop = Some (Num (543 / 5)), break_even_stop = Some (1001 / 10),
          last_updated = ''2024-01-01T00:00:10''\<rparr>)]\<rparr>)"
  by code_simp

lemma long_failing_call:
  "update_position_stop_loss
     \<lparr>settings = initial_settings,
      position_stops = [(''LONG_BTC-USDT-SWAP_1700000000'',
        \<lparr>info_symbol = ''BTC-USDT-SWAP'', info_position_type = LONG, info_entry_price = 100,
         current_stop = Num (543 / 5), dynamic_stop = Num 98,
         trailing_stop = Some (Num (543 / 5)), break_even_stop = Some (1001 / 10),
         last_updated = ''2024-01-01T00:00:10''\<rparr>)]\<rparr>
     failing_call ''LONG_BTC-USDT-SWAP_1700000000'' ''BTC-USDT-SWAP'' LONG 100 110
   = (Num 98,
      \<lparr>settings = initial_settings,
       position_stops = [(''LONG_BTC-USDT-SWAP_1700000000'',
         \<lparr>info_symbol = ''BTC-USDT-SWAP'', info_position_type = LONG, info_entry_price = 100,
          current_stop = Num (543 / 5), dynamic_stop = Num 98,
          trailing_stop = Some (Num (543 / 5)), break_even_stop = Some (1001 / 10),
          last_updated = ''2024-01-01T00:00:10''\<rparr>)]\<rparr>)"
  by code_simp

lemma long_later_call:
  "update_position_stop_loss
     \<lparr>settings = initial_settings,
      position_stops = [(''LONG_BTC-USDT-SWAP_1700000000'',
        \<lparr>info_symbol = ''BTC-USDT-SWAP'', info_position_type = LONG, info_entry_price = 100,
         current_stop = Num (543 / 5), dynamic_stop = Num 98,
         trailing_stop = Some (Num (543 / 5)), break_even_stop = Some (1001 / 10),
         last_updated = ''2024-01-01T00:00:10''\<rparr>)]\<rparr>
     steady_data ''LONG_BTC-USDT-SWAP_1700000000'' ''BTC-USDT-SWAP'' LONG 100 105
   = (Num (543 / 5),
      \<lparr>settings = initial_settings,
       position_stops = [(''LONG_BTC-USDT-SWAP_1700000000'',
         \<lparr>info_symbol = ''BTC-USDT-SWAP'', info_position_type = LONG, info_entry_price = 100,
          current_stop = Num (543 / 5), dynamic_stop = Num 98,
          trailing_stop = Some (Num (543 / 5)), break_even_stop = Some (1001 / 10),
          last_updated = ''2024-01-01T00:00:10''\<rparr>)]\<rparr>)"
  by code_simp

lemma long_short_history_call:
  "update_position_stop_loss
     \<lparr>settings = initial_settings,
      position_stops = [(''LONG_BTC-USDT-SWAP_1700000000'',
        \<lparr>info_symbol = ''BTC-USDT-SWAP'', info_position_type = LONG, info_entry_price = 100,
         current_stop = Num (543 / 5), dynamic_stop = Num 98,
         trailing_stop = Some (Num (543 / 5)), break_even_stop = Some (1001 / 10),
         last_updated = ''2024-01-01T00:00:10''\<rparr>)]\<rparr>
     short_history ''LONG_BTC-USDT-SWAP_1700000000'' ''BTC-USDT-SWAP'' LONG 100 110
   = (NaN,
      \<lparr>settings = initial_settings,
       position_stops = [(''LONG_BTC-USDT-SWAP_1700000000'',
         \<lparr>info_symbol = ''BTC-USDT-SWAP'', info_position_type = LONG, info_entry_price = 100,
          current_stop = NaN, dynamic_stop = NaN,
          trailing_stop = Some (Num (543 / 5)), break_even_stop = Some (1001 / 10),
          last_updated = ''2024-01-01T00:00:30''\<rparr>)]\<rparr>)"
  by code_simp

lemma long_call_after_nan:
  "update_position_stop_loss
     \<lparr>settings = initial_settings,
      position_stops = [(''LONG_BTC-USDT-SWAP_1700000000'',
        \<lparr>info_symbol = ''BTC-USDT-SWAP'', info_position_type = LONG, info_entry_price = 100,
         current_stop = NaN, dynamic_stop = NaN,
         trailing_stop = Some (Num (543 / 5)), break_even_stop = Some (1001 / 10),
         last_updated = ''2024-01-01T00:00:30''\<rparr>)]\<rparr>
     steady_data ''LONG_BTC-USDT-SWAP_1700000000'' ''BTC-USDT-SWAP'' LONG 100 110
   = (Num (1001 / 10),
      \<lparr>settings = initial_settings,
       position_stops = [(''LONG_BTC-USDT-SWAP_1700000000'',
         \<lparr>info_symbol = ''BTC-USDT-SWAP'', info_position_type = LONG, info_entry_price = 100,
          current_stop = Num (1001 / 10), dynamic_stop = Num 98,
          trailing_stop = Some NaN, break_even_stop = Some (1001 / 10),
          last_updated = ''2024-01-01T00:00:10''\<rparr>)]\<rparr>)"
  by code_simp

text \<open>
  C1, as stated, fails. A Long entered at 100 is updated three times: without market
  data at price 100 (stop 98), with market data at price 110 (stop 108.6), and at the
  same price by a call whose body raises. The handler answers with the fixed stop 98,
  below the stop returned before.
\<close>

theorem error_path_loosens_stop:
  "returned_stops initial_engine ''LONG_BTC-USDT-SWAP_1700000000'' ''BTC-USDT-SWAP'' LONG 100
     [(no_data, 100), (steady_data, 110), (failing_call, 110)] = [Num 98, Num (543 / 5), Num 98]
   \<and> \<not> sorted_wrt py_le
         (returned_stops initial_engine ''LONG_BTC-USDT-SWAP_1700000000'' ''BTC-USDT-SWAP'' LONG 100
            [(no_data, 100), (steady_data, 110), (failing_call, 110)])"
  by (simp add: long_first_call long_second_call long_failing_call py_le_Num)

text \<open>
  The hypothesis on the rows of the frames in the theorem below is needed. When the
  database holds only 5 rows of the instrument, the rolling mean over 14 rows is NaN,
  and so are the dynamic stop and the final stop of that call, which the engine returns
  and stores. At the next call the trailing stop keeps the stored NaN, \<open>max\<close> skips
  it, and the stop of a Long entered at 100 comes back at 100.1, below the 108.6
  returned two calls before. No handler is involved.
\<close>

lemma short_history_loosens_stop:
  "returned_stops initial_engine ''LONG_BTC-USDT-SWAP_1700000000'' ''BTC-USDT-SWAP'' LONG 100
     [(no_data, 100), (steady_data, 110), (short_history, 110), (steady_data, 110)]
     = [Num 98, Num (543 / 5), NaN, Num (1001 / 10)]"
  by (simp add: long_first_call long_second_call long_short_history_call long_call_after_nan)

text \<open>
  The hypothesis of positive prices is needed for a Short: a trailing stop of exactly
  \<open>0.0\<close> is taken for a missing one by \<open>trailing_stop or dynamic_stop\<close>. With flat
  prices and a current price of zero the stop of a Short moves from 51.4 up to 99.9.
\<close>

lemma zero_price_loosens_short_stop:
  "returned_stops initial_engine ''SHORT_BTC-USDT-SWAP_1700000000'' ''BTC-USDT-SWAP'' SHORT 100
     [(no_data, 100), (steady_data, 50), (flat_data, 0)] = [Num 102, Num (257 / 5), Num (999 / 10)]"
  by code_simp

text \<open>
  C1, amended. Take a position with a positive entry price, an engine whose
  \<open>max_risk_per_trade\<close> is below 1 and whose \<open>atr_period\<close> is positive, and any
  sequence of calls of \<open>update_position_stop_loss\<close> in which every frame that the
  database returns is either empty or has at least \<open>atr_period\<close> rows. Consider the
  calls that complete without reaching the handler. For a Long their stops are numbers
  that never decrease, and none is below the stop stored before the sequence, when that
  is a number. For a Short their stops are positive numbers that never increase, and
  none is above the stop stored before, provided the current prices are positive, the
  true-range means of the frames and the ATR multiplier are not negative, the risk
  setting is not negative and the stop stored before, if any, is positive. A call whose
  body raises returns the fixed 2 percent stop, wherever the body was left.
\<close>

theorem completed_stops_never_loosen:
  assumes "0 < entry" and "max_risk_per_trade (settings eng) < 1"
    and "0 < atr_period (settings eng)"
    and "\<forall>(env, current_price) \<in> set calls.
           \<forall>n \<in> {20, 50}. \<forall>f. get_recent_ohlcv env symb n = Some f \<longrightarrow> atr_period (settings eng) \<le> frame_rows f"
  shows "sorted_wrt py_le (completed_stops eng pid symb LONG entry calls)
    \<and> NaN \<notin> set (completed_stops eng pid symb LONG entry calls)
    \<and> (\<forall>i r. map_of (position_stops eng) pid = Some i \<and> current_stop i \<noteq> NaN
          \<and> r \<in> set (completed_stops eng pid symb LONG entry calls) \<longrightarrow> py_le (current_stop i) r)
    \<and> (0 \<le> atr_multiplier (settings eng) \<and> 0 \<le> max_risk_per_trade (settings eng)
        \<and> (\<forall>i. map_of (position_stops eng) pid = Some i \<longrightarrow> py_lt (Num 0) (current_stop i))
        \<and> (\<forall>(env, current_price) \<in> set calls. 0 < current_price
              \<and> (\<forall>n \<in> {20, 50}. \<forall>f. get_recent_ohlcv env symb n = Some f \<longrightarrow> 0 \<le> true_range_mean f))
        \<longrightarrow> sorted_wrt (\<lambda>a b. py_le b a) (completed_stops eng pid symb SHORT entry calls)
          \<and> (\<forall>r \<in> set (completed_stops eng pid symb SHORT entry calls). py_lt (Num 0) r)
          \<and> (\<forall>i r. map_of (position_stops eng) pid = Some i
                \<and> r \<in> set (completed_stops eng pid symb SHORT entry calls)
                \<longrightarrow> py_le r (current_stop i)))
    \<and> (\<forall>env current_price. body_raises env \<noteq> None \<longrightarrow>
          fst (update_position_stop_loss eng env pid symb ptype entry current_price)
            = Num (calculate_fixed_stop_loss entry ptype (2 / 100)))"
proof -
  note long = completed_long [OF assms, of pid]
  have short: "0 \<le> atr_multiplier (settings eng) \<and> 0 \<le> max_risk_per_trade (settings eng)
        \<and> (\<forall>i. map_of (position_stops eng) pid = Some i \<longrightarrow> py_lt (Num 0) (current_stop i))
        \<and> (\<forall>(env, current_price) \<in> set calls. 0 < current_price
              \<and> (\<forall>n \<in> {20, 50}. \<forall>f. get_recent_ohlcv env symb n = Some f \<longrightarrow> 0 \<le> true_range_mean f))
        \<longrightarrow> sorted_wrt (\<lambda>a b. py_le b a) (completed_stops eng pid symb SHORT entry calls)
          \<and> (\<forall>r \<in> set (completed_stops eng pid symb SHORT entry calls). py_lt (Num 0) r)
          \<and> (\<forall>i r. map_of (position_stops eng) pid = Some i
                \<and> r \<in> set (completed_stops eng pid symb SHORT entry calls)
                \<longrightarrow> py_le r (current_stop i))"
  proof
    assume h: "0 \<le> atr_multiplier (settings eng) \<and> 0 \<le> max_risk_per_trade (settings eng)
        \<and> (\<forall>i. map_of (position_stops eng) pid = Some i \<longrightarrow> py_lt (Num 0) (current_stop i))
        \<and> (\<forall>(env, current_price) \<in> set calls. 0 < current_price
              \<and> (\<forall>n \<in> {20, 50}. \<forall>f. get_recent_ohlcv env symb n = Some f \<longrightarrow> 0 \<le> true_range_mean f))"
    have frames: "\<forall>(env, current_price) \<in> set calls. 0 < current_price
           \<and> (\<forall>n \<in> {20, 50}. \<forall>f. get_recent_ohlcv env symb n = Some f
                 \<longrightarrow> atr_period (settings eng) \<le> frame_rows f \<and> 0 \<le> true_range_mean f)"
      using h assms(4) by fastforce
    from h have "0 \<le> atr_multiplier (settings eng)" "0 \<le> max_risk_per_trade (settings eng)"
      "\<forall>i. map_of (position_stops eng) pid = Some i \<longrightarrow> py_lt (Num 0) (current_stop i)"
      by blast+
    from completed_short [OF assms(1) this(1,2) assms(3) this(3) frames]
    show "sorted_wrt (\<lambda>a b. py_le b a) (completed_stops eng pid symb SHORT entry calls)
          \<and> (\<forall>r \<in> set (completed_stops eng pid symb SHORT entry calls). py_lt (Num 0) r)
          \<and> (\<forall>i r. map_of (position_stops eng) pid = Some i
                \<and> r \<in> set (completed_stops eng pid symb SHORT entry calls)
                \<longrightarrow> py_le r (current_stop i))" .
  qed
  have handler: "\<forall>env current_price. body_raises env \<noteq> None \<longrightarrow>
          fst (update_position_stop_loss eng env pid symb ptype entry current_price)
            = Num (calculate_fixed_stop_loss entry ptype (2 / 100))"
    by (auto simp: update_raises)
  from long short handler show ?thesis by blast
qed

theorem completed_stops_never_loosen_witness:
  "(0::real) < 100 \<and> max_risk_per_trade (settings initial_engine) < 1
   \<and> 0 < atr_period (settings initial_engine)
   \<and> 0 \<le> atr_multiplier (settings initial_engine)
   \<and> 0 \<le> max_risk_per_trade (settings initial_engine)
   \<and> get_recent_ohlcv steady_data ''BTC-USDT-SWAP'' 50
        = Some \<lparr>frame_rows = 50, true_range_mean = 1, returns_std = 3 / 100\<rparr>
   \<and> get_recent_ohlcv steady_data ''BTC-USDT-SWAP'' 20
        = Some \<lparr>frame_rows = 20, true_range_mean = 1, returns_std = 3 / 100\<rparr>
   \<and> completed_stops initial_engine ''LONG_BTC-USDT-SWAP_1700000000'' ''BTC-USDT-SWAP'' LONG 100
        [(no_data, 100), (steady_data, 110), (failing_call, 110), (steady_data, 105)]
        = [Num 98, Num (543 / 5), Num (543 / 5)]
   \<and> sorted_wrt py_le
        (completed_stops initial_engine ''LONG_BTC-USDT-SWAP_1700000000'' ''BTC-USDT-SWAP'' LONG 100
           [(no_data, 100), (steady_data, 110), (failing_call, 110), (steady_data, 105)])
   \<and> completed_stops initial_engine ''SHORT_BTC-USDT-SWAP_1700000000'' ''BTC-USDT-SWAP'' SHORT 100
        [(no_data, 100), (steady_data, 90), (failing_call, 90), (steady_data, 95)]
        = [Num 102, Num (457 / 5), Num (457 / 5)]
   \<and> sorted_wrt (\<lambda>a b. py_le b a)
        (completed_stops initial_engine ''SHORT_BTC-USDT-SWAP_1700000000'' ''BTC-USDT-SWAP'' SHORT 100
           [(no_data, 100), (steady_data, 90), (failing_call, 90), (steady_data, 95)])
   \<and> map_option current_stop
        (map_of (position_stops engine_after_first_update) ''LONG_BTC-USDT-SWAP_1700000000'')
        = Some (Num 98)
   \<and> Num (543 / 5) \<in> set (completed_stops engine_after_first_update
          ''LONG_BTC-USDT-SWAP_1700000000'' ''BTC-USDT-SWAP'' LONG 100 [(steady_data, 110)])
   \<and> py_le (Num 98) (Num (543 / 5))
   \<and> body_raises failing_call \<noteq> None
   \<and> fst (update_position_stop_loss initial_engine failing_call ''LONG_BTC-USDT-SWAP_1700000000''
          ''BTC-USDT-SWAP'' LONG 100 110) = Num 98"
proof -
  let ?up = "[(no_data, 100), (steady_data, 110), (failing_call, 110), (steady_data, 105::real)]"
  let ?down = "[(no_data, 100), (steady_data, 90), (failing_call, 90), (steady_data, 95::real)]"
  let ?first =
    "\<lparr>settings = initial_settings,
      position_stops = [(''LONG_BTC-USDT-SWAP_1700000000'',
        \<lparr>info_symbol = ''BTC-USDT-SWAP'', info_position_type = LONG, info_entry_price = 100,
         current_stop = Num 98, dynamic_stop = Num 98, trailing_stop = None,
         break_even_stop = None, last_updated = ''2024-01-01T00:00:00''\<rparr>)]\<rparr>"
  have entry: "(0::real) < 100" by simp
  have risk: "max_risk_per_trade (settings initial_engine) < 1"
    and period: "0 < atr_period (settings initial_engine)"
    and mult: "0 \<le> atr_multiplier (settings initial_engine)"
    and risk0: "0 \<le> max_risk_per_trade (settings initial_engine)"
    by (simp_all add: initial_engine_def initial_settings_def)
  have frame50: "get_recent_ohlcv steady_data ''BTC-USDT-SWAP'' 50
        = Some \<lparr>frame_rows = 50, true_range_mean = 1, returns_std = 3 / 100\<rparr>"
    and frame20: "get_recent_ohlcv steady_data ''BTC-USDT-SWAP'' 20
        = Some \<lparr>frame_rows = 20, true_range_mean = 1, returns_std = 3 / 100\<rparr>"
    by (simp_all add: steady_data_def)
  have rows_up: "\<forall>(env, current_price) \<in> set ?up.
      \<forall>n \<in> {20, 50}. \<forall>f. get_recent_ohlcv env ''BTC-USDT-SWAP'' n = Some f
        \<longrightarrow> atr_period (settings initial_engine) \<le> frame_rows f"
    by (auto simp: no_data_def steady_data_def failing_call_def initial_engine_def
        initial_settings_def)
  have rows_down: "\<forall>(env, current_price) \<in> set ?down.
      \<forall>n \<in> {20, 50}. \<forall>f. get_recent_ohlcv env ''BTC-USDT-SWAP'' n = Some f
        \<longrightarrow> atr_period (settings initial_engine) \<le> frame_rows f"
    by (auto simp: no_data_def steady_data_def failing_call_def initial_engine_def
        initial_settings_def)
  have fresh: "\<forall>i. map_of (position_stops initial_engine) ''SHORT_BTC-USDT-SWAP_1700000000'' = Some i
      \<longrightarrow> py_lt (Num 0) (current_stop i)"
    by (simp add: initial_engine_def)
  have calls: "\<forall>(env, current_price) \<in> set ?down. 0 < current_price
      \<and> (\<forall>n \<in> {20, 50}. \<forall>f. get_recent_ohlcv env ''BTC-USDT-SWAP'' n = Some f
            \<longrightarrow> 0 \<le> true_range_mean f)"
    by (auto simp: no_data_def steady_data_def failing_call_def)
  have raises: "body_raises failing_call \<noteq> None"
    and raises_not: "body_raises no_data = None" "body_raises steady_data = None"
    by (simp_all add: failing_call_def steady_data_def no_data_def)
  from completed_stops_never_loosen [OF entry risk period rows_up,
      of "''LONG_BTC-USDT-SWAP_1700000000''" LONG] raises
  have up: "sorted_wrt py_le
        (completed_stops initial_engine ''LONG_BTC-USDT-SWAP_1700000000'' ''BTC-USDT-SWAP'' LONG 100 ?up)"
    and fixed: "fst (update_position_stop_loss initial_engine failing_call
          ''LONG_BTC-USDT-SWAP_1700000000'' ''BTC-USDT-SWAP'' LONG 100 110)
        = Num (calculate_fixed_stop_loss 100 LONG (2 / 100))"
    by blast+
  from completed_stops_never_loosen [OF entry risk period rows_down,
      of "''SHORT_BTC-USDT-SWAP_1700000000''"]
    mult risk0 fresh calls
  have down: "sorted_wrt (\<lambda>a b. py_le b a)
        (completed_stops initial_engine ''SHORT_BTC-USDT-SWAP_1700000000'' ''BTC-USDT-SWAP'' SHORT 100 ?down)"
    by blast
  have long: "completed_stops initial_engine ''LONG_BTC-USDT-SWAP_1700000000'' ''BTC-USDT-SWAP'' LONG 100
        ?up = [Num 98, Num (543 / 5), Num (543 / 5)]"
    by (simp add: long_first_call long_second_call long_failing_call long_later_call
        raises raises_not)
  have short: "completed_stops initial_engine ''SHORT_BTC-USDT-SWAP_1700000000'' ''BTC-USDT-SWAP'' SHORT 100
        ?down = [Num 102, Num (457 / 5), Num (457 / 5)]"
    by code_simp
  have first: "engine_after_first_update = ?first"
    unfolding engine_after_first_update_def long_first_call by simp
  have risk1: "max_risk_per_trade (settings engine_after_first_update) < 1"
    and period1: "0 < atr_period (settings engine_after_first_update)"
    unfolding first by (simp_all add: initial_settings_def)
  have rows1: "\<forall>(env, current_price) \<in> set [(steady_data, 110::real)].
      \<forall>n \<in> {20, 50}. \<forall>f. get_recent_ohlcv env ''BTC-USDT-SWAP'' n = Some f
        \<longrightarrow> atr_period (settings engine_after_first_update) \<le> frame_rows f"
    unfolding first by (auto simp: steady_data_def initial_settings_def)
  have stored: "map_of (position_stops engine_after_first_update) ''LONG_BTC-USDT-SWAP_1700000000''
      = Some \<lparr>info_symbol = ''BTC-USDT-SWAP'', info_position_type = LONG, info_entry_price = 100,
               current_stop = Num 98, dynamic_stop = Num 98, trailing_stop = None,
               break_even_stop = None, last_updated = ''2024-01-01T00:00:00''\<rparr>"
    unfolding first by simp
  have later: "completed_stops engine_after_first_update
          ''LONG_BTC-USDT-SWAP_1700000000'' ''BTC-USDT-SWAP'' LONG 100 [(steady_data, 110)]
        = [Num (543 / 5)]"
    unfolding first by (simp add: long_second_call raises_not)
  from completed_stops_never_loosen [OF entry risk1 period1 rows1,
      of "''LONG_BTC-USDT-SWAP_1700000000''"]
    stored later
  have above: "py_le (Num 98) (Num (543 / 5))"
    by fastforce
  have fixed98: "calculate_fixed_stop_loss 100 LONG (2 / 100) = 98"
    by (simp add: calculate_fixed_stop_loss_def)
  from stored have stored98: "map_option current_stop
        (map_of (position_stops engine_after_first_update) ''LONG_BTC-USDT-SWAP_1700000000'')
        = Some (Num 98)"
    by simp
  have member: "Num (543 / 5) \<in> set (completed_stops engine_after_first_update
          ''LONG_BTC-USDT-SWAP_1700000000'' ''BTC-USDT-SWAP'' LONG 100 [(steady_data, 110)])"
    unfolding later by simp
  have answer: "fst (update_position_stop_loss initial_engine failing_call
          ''LONG_BTC-USDT-SWAP_1700000000'' ''BTC-USDT-SWAP'' LONG 100 110) = Num 98"
    unfolding fixed fixed98 ..
  from entry risk period mult risk0 frame50 frame20 long up short down stored98 member above
    raises answer
  show ?thesis by blast
qed

section \<open>Claims about the scanner\<close>

lemma fst_collect_result:
  "fst (collect_result th scan pair acc) =
     (case scan pair of Returned (Found r) \<Rightarrow> dict_set (fst acc) pair r | _ \<Rightarrow> fst acc)"
  by (simp add: collect_result_def split: outcome.splits scan_result.splits)

lemma collected_keys:
  "set (map fst (fst (foldl (\<lambda>acc pair. collect_result th scan pair acc) acc xs)))
     = set (map fst (fst acc)) \<union> {p \<in> set xs. \<exists>r. scan p = Returned (Found r)}"
proof (induction xs arbitrary: acc)
  case Nil
  then show ?case by simp
next
  case (Cons x xs)
  have step: "set (map fst (fst (collect_result th scan x acc)))
      = set (map fst (fst acc)) \<union> {p. p = x \<and> (\<exists>r. scan p = Returned (Found r))}"
    by (auto simp: fst_collect_result keys_dict_set simp del: set_map
        split: outcome.splits scan_result.splits)
  have "set (map fst (fst (foldl (\<lambda>acc pair. collect_result th scan pair acc) acc (x # xs))))
      = set (map fst (fst (collect_result th scan x acc)))
          \<union> {p \<in> set xs. \<exists>r. scan p = Returned (Found r)}"
    using Cons.IH [of "collect_result th scan x acc"] by simp
  also have "\<dots> = set (map fst (fst acc)) \<union> {p \<in> set (x # xs). \<exists>r. scan p = Returned (Found r)}"
    unfolding step by auto
  finally show ?case .
qed

lemma collected_lookup:
  "map_of (fst (foldl (\<lambda>acc pair. collect_result th scan pair acc) acc xs)) p
     = (case scan p of
          Returned (Found r) \<Rightarrow> if p \<in> set xs then Some r else map_of (fst acc) p
        | _ \<Rightarrow> map_of (fst acc) p)"
proof (induction xs arbitrary: acc)
  case Nil
  then show ?case by (simp split: outcome.splits scan_result.splits)
next
  case (Cons x xs)
  show ?case
    by (cases "x = p")
       (auto simp: Cons.IH fst_collect_result map_of_dict_set_same map_of_dict_set_other
         split: outcome.splits scan_result.splits)
qed

lemma collected_distinct:
  "distinct (map fst (fst acc)) \<Longrightarrow>
   distinct (map fst (fst (foldl (\<lambda>acc pair. collect_result th scan pair acc) acc xs)))"
proof (induction xs arbitrary: acc)
  case Nil
  then show ?case by simp
next
  case (Cons x xs)
  have "distinct (map fst (fst (collect_result th scan x acc)))"
    using Cons.prems
    by (auto simp: fst_collect_result distinct_dict_set split: outcome.splits scan_result.splits)
  from Cons.IH [OF this] show ?case by simp
qed

lemma sorted_by_strength_desc_sorted:
  "sorted_wrt (\<lambda>a b. signal_strength a \<ge> signal_strength b) (sorted_by_strength_desc xs)"
proof -
  have "sorted (map (\<lambda>x. - signal_strength x) (sort_key (\<lambda>x. - signal_strength x) xs))"
    by (rule sorted_sort_key)
  then show ?thesis
    by (simp add: sorted_by_strength_desc_def sorted_map)
qed

lemma sorted_by_strength_desc_stable:
  "filter (\<lambda>x. signal_strength x = k) (sorted_by_strength_desc xs)
     = filter (\<lambda>x. signal_strength x = k) xs"
proof -
  have "filter (\<lambda>x. - signal_strength x = - k) (sort_key (\<lambda>x. - signal_strength x) xs)
          = filter (\<lambda>x. - signal_strength x = - k) xs"
    by (rule sort_key_stable)
  then show ?thesis by (simp add: sorted_by_strength_desc_def)
qed


lemmas scan_example_defs =
  default_scanner_def btc_opportunity_def eth_opportunity_def eth_strong_opportunity_def
  both_found_equal_def both_found_eth_stronger_def only_btc_found_def

text \<open>
  C4, as stated, fails. Scanning BTC and ETH, where the task of ETH raises, returns a
  report whose only per-instrument entry is that of BTC: ETH appears neither as a success
  nor as a recorded failure; the failure is written to the log and counted only in the
  difference between \<open>total_scanned\<close> and \<open>successful_scans\<close>.
\<close>

theorem failed_scan_is_not_in_report:
  "fst (scan_all_pairs default_scanner ''2024-01-01T00:00:00'' only_btc_found id
          [''BTC-USDT-SWAP'', ''ETH-USDT-SWAP''])
     = Some \<lparr>total_scanned = 2, successful_scans = 1,
             report_high_confidence_signals = [btc_opportunity],
             scan_time = ''2024-01-01T00:00:00'',
             results = [(''BTC-USDT-SWAP'', btc_opportunity)]\<rparr>
   \<and> \<not> accounted_for
         \<lparr>total_scanned = 2, successful_scans = 1,
          report_high_confidence_signals = [btc_opportunity],
          scan_time = ''2024-01-01T00:00:00'',
          results = [(''BTC-USDT-SWAP'', btc_opportunity)]\<rparr> ''ETH-USDT-SWAP''"
  by (simp add: scan_all_pairs_def collect_result_def accounted_for_def Let_def scan_example_defs)

text \<open>
  C4, amended. For a non-empty list of instruments, a worker limit of at least one and
  any order of completion, \<open>scan_all_pairs\<close> returns a report with
  \<open>total_scanned\<close> equal to the number of instruments given and with \<open>results\<close>
  holding exactly the instruments whose scan returned an opportunity, each once and with
  its own opportunity; \<open>successful_scans\<close> is their number. So a failed scan removes
  only its own instrument from the report and never the result of another one.
\<close>

theorem scan_report_holds_every_success:
  assumes "0 < max_concurrent_scans sc"
    and "pairs \<noteq> []"
    and "mset (completion pairs) = mset pairs"
  shows "\<exists>report sc'.
      scan_all_pairs sc clock scan_single_pair completion pairs = (Some report, sc')
      \<and> total_scanned report = length pairs
      \<and> set (map fst (results report))
          = {p \<in> set pairs. \<exists>r. scan_single_pair p = Returned (Found r)}
      \<and> distinct (map fst (results report))
      \<and> (\<forall>p r. p \<in> set pairs \<and> scan_single_pair p = Returned (Found r)
            \<longrightarrow> map_of (results report) p = Some r)
      \<and> successful_scans report
          = card {p \<in> set pairs. \<exists>r. scan_single_pair p = Returned (Found r)}
      \<and> scan_results sc' = results report"
proof -
  let ?found = "fst (foldl (\<lambda>acc pair. collect_result (min_confidence sc) scan_single_pair pair acc)
                   ([], []) (completion pairs))"
  have same: "set (completion pairs) = set pairs"
    using assms(3) by (metis set_mset_mset)
  have keys: "set (map fst ?found) = {p \<in> set pairs. \<exists>r. scan_single_pair p = Returned (Found r)}"
    using collected_keys [of "min_confidence sc" scan_single_pair "([], [])" "completion pairs"] same
    by simp
  have dist: "distinct (map fst ?found)"
    by (rule collected_distinct) simp
  have look: "\<forall>p r. p \<in> set pairs \<and> scan_single_pair p = Returned (Found r)
            \<longrightarrow> map_of ?found p = Some r"
    using same by (simp add: collected_lookup)
  have "length ?found = card (set (map fst ?found))"
    using dist distinct_card [of "map fst ?found"] by simp
  then have count: "length ?found = card {p \<in> set pairs. \<exists>r. scan_single_pair p = Returned (Found r)}"
    using keys by simp
  show ?thesis
    using assms(1,2) keys dist look count
    by (simp add: scan_all_pairs_def Let_def)
qed

theorem scan_report_holds_every_success_witness:
  "0 < max_concurrent_scans default_scanner
   \<and> [''BTC-USDT-SWAP'', ''ETH-USDT-SWAP''] \<noteq> []
   \<and> mset (rev [''BTC-USDT-SWAP'', ''ETH-USDT-SWAP'']) = mset [''BTC-USDT-SWAP'', ''ETH-USDT-SWAP'']
   \<and> (\<exists>report sc'.
      scan_all_pairs default_scanner ''2024-01-01T00:00:00'' only_btc_found rev
         [''BTC-USDT-SWAP'', ''ETH-USDT-SWAP''] = (Some report, sc')
      \<and> total_scanned report = 2
      \<and> map_of (results report) ''BTC-USDT-SWAP'' = Some btc_opportunity
      \<and> distinct (map fst (results report)))"
proof -
  have h1: "0 < max_concurrent_scans default_scanner" by (simp add: default_scanner_def)
  have h2: "[''BTC-USDT-SWAP'', ''ETH-USDT-SWAP''] \<noteq> []" by simp
  have h3: "mset (rev [''BTC-USDT-SWAP'', ''ETH-USDT-SWAP'']) = mset [''BTC-USDT-SWAP'', ''ETH-USDT-SWAP'']"
    by simp
  have found: "only_btc_found ''BTC-USDT-SWAP'' = Returned (Found btc_opportunity)"
    by (simp add: only_btc_found_def)
  from scan_report_holds_every_success
    [where sc = default_scanner and pairs = "[''BTC-USDT-SWAP'', ''ETH-USDT-SWAP'']"
       and completion = rev and clock = "''2024-01-01T00:00:00''"
       and scan_single_pair = only_btc_found] h1 h2 h3
  obtain report sc' where
    "scan_all_pairs default_scanner ''2024-01-01T00:00:00'' only_btc_found rev
         [''BTC-USDT-SWAP'', ''ETH-USDT-SWAP''] = (Some report, sc')"
    "total_scanned report = length [''BTC-USDT-SWAP'', ''ETH-USDT-SWAP'']"
    "distinct (map fst (results report))"
    "\<forall>p r. p \<in> set [''BTC-USDT-SWAP'', ''ETH-USDT-SWAP''] \<and> only_btc_found p = Returned (Found r)
            \<longrightarrow> map_of (results report) p = Some r"
    by blast
  with found h1 h2 h3 show ?thesis by auto
qed

text \<open>
  C5, as stated, fails. When the scans of ETH and BTC return the same strength 0.8 and
  ETH completes first, the high-confidence list of the report, and the list stored in the
  scanner, is ETH then BTC: ties stay in the order of completion and are not ordered by
  instrument name.
\<close>

theorem equal_strengths_not_ordered_by_name:
  "fst (scan_all_pairs default_scanner ''2024-01-01T00:00:00'' both_found_equal rev
          [''BTC-USDT-SWAP'', ''ETH-USDT-SWAP''])
     = Some \<lparr>total_scanned = 2, successful_scans = 2,
             report_high_confidence_signals = [eth_opportunity, btc_opportunity],
             scan_time = ''2024-01-01T00:00:00'',
             results = [(''ETH-USDT-SWAP'', eth_opportunity), (''BTC-USDT-SWAP'', btc_opportunity)]\<rparr>
   \<and> \<not> spec_ranked [eth_opportunity, btc_opportunity]
   \<and> high_confidence_signals
        (snd (scan_all_pairs default_scanner ''2024-01-01T00:00:00'' both_found_equal rev
          [''BTC-USDT-SWAP'', ''ETH-USDT-SWAP'']))
     = [eth_opportunity, btc_opportunity]"
  by (simp add: scan_all_pairs_def collect_result_def spec_ranked_def Let_def scan_example_defs
      sorted_by_strength_desc_def)

text \<open>
  The report carries the local list, which is in the order of completion; the sorted
  list is the one stored in the scanner.
\<close>

lemma report_list_is_in_completion_order:
  "report_high_confidence_signals (the (fst
      (scan_all_pairs default_scanner ''2024-01-01T00:00:00'' both_found_eth_stronger id
          [''BTC-USDT-SWAP'', ''ETH-USDT-SWAP''])))
     = [btc_opportunity, eth_strong_opportunity]
   \<and> high_confidence_signals (snd
      (scan_all_pairs default_scanner ''2024-01-01T00:00:00'' both_found_eth_stronger id
          [''BTC-USDT-SWAP'', ''ETH-USDT-SWAP'']))
     = [eth_strong_opportunity, btc_opportunity]"
  by (simp add: scan_all_pairs_def collect_result_def Let_def scan_example_defs
      sorted_by_strength_desc_def)

text \<open>
  C5, amended. After a scan with a worker limit of at least one, the high-confidence
  list stored in the scanner, and the list \<open>get_high_confidence_signals\<close> serves
  from it, is sorted descending by signal strength; it has the entries of the report's
  list, and entries of equal strength keep their order of completion.
\<close>

theorem stored_signals_sorted_by_strength:
  assumes "0 < max_concurrent_scans sc"
  shows "\<exists>report sc'.
      scan_all_pairs sc clock scan_single_pair completion pairs = (Some report, sc')
      \<and> sorted_wrt (\<lambda>a b. signal_strength a \<ge> signal_strength b) (high_confidence_signals sc')
      \<and> mset (high_confidence_signals sc') = mset (report_high_confidence_signals report)
      \<and> (\<forall>k. filter (\<lambda>x. signal_strength x = k) (high_confidence_signals sc')
               = filter (\<lambda>x. signal_strength x = k) (report_high_confidence_signals report))
      \<and> sorted_wrt (\<lambda>a b. signal_strength a \<ge> signal_strength b) (get_high_confidence_signals sc')"
proof -
  let ?local = "snd (foldl (\<lambda>acc pair. collect_result (min_confidence sc) scan_single_pair pair acc)
                   ([], [])
                   (completion (if pairs = [] then get_all_perpetual_pairs else pairs)))"
  have sorted: "sorted_wrt (\<lambda>a b. signal_strength a \<ge> signal_strength b)
                  (sorted_by_strength_desc ?local)"
    by (rule sorted_by_strength_desc_sorted)
  then have served: "sorted_wrt (\<lambda>a b. signal_strength a \<ge> signal_strength b)
      (filter (\<lambda>signal. signal_strength signal \<ge> min_confidence sc) (sorted_by_strength_desc ?local))"
    by (rule sorted_wrt_filter)
  have same: "mset (sorted_by_strength_desc ?local) = mset ?local"
    by (simp add: sorted_by_strength_desc_def)
  show ?thesis
    using assms sorted served same
    by (simp add: scan_all_pairs_def Let_def get_high_confidence_signals_def
        sorted_by_strength_desc_stable)
qed

theorem stored_signals_sorted_by_strength_witness:
  "0 < max_concurrent_scans default_scanner
   \<and> (\<exists>report sc'.
      scan_all_pairs default_scanner ''2024-01-01T00:00:00'' both_found_eth_stronger id
          [''BTC-USDT-SWAP'', ''ETH-USDT-SWAP''] = (Some report, sc')
      \<and> sorted_wrt (\<lambda>a b. signal_strength a \<ge> signal_strength b) (high_confidence_signals sc')
      \<and> high_confidence_signals sc' = [eth_strong_opportunity, btc_opportunity])"
proof -
  have h: "0 < max_concurrent_scans default_scanner" by (simp add: default_scanner_def)
  from stored_signals_sorted_by_strength
    [where sc = default_scanner and pairs = "[''BTC-USDT-SWAP'', ''ETH-USDT-SWAP'']"
       and completion = id and clock = "''2024-01-01T00:00:00''"
       and scan_single_pair = both_found_eth_stronger] h
  obtain report sc' where
    run: "scan_all_pairs default_scanner ''2024-01-01T00:00:00'' both_found_eth_stronger id
          [''BTC-USDT-SWAP'', ''ETH-USDT-SWAP''] = (Some report, sc')"
    and sorted: "sorted_wrt (\<lambda>a b. signal_strength a \<ge> signal_strength b) (high_confidence_signals sc')"
    by blast
  have "high_confidence_signals (snd
      (scan_all_pairs default_scanner ''2024-01-01T00:00:00'' both_found_eth_stronger id
          [''BTC-USDT-SWAP'', ''ETH-USDT-SWAP'']))
     = [eth_strong_opportunity, btc_opportunity]"
    by (simp add: scan_all_pairs_def collect_result_def Let_def scan_example_defs
      sorted_by_strength_desc_def)
  with run have "high_confidence_signals sc' = [eth_strong_opportunity, btc_opportunity]"
    by simp
  with h run sorted show ?thesis by blast
qed

section \<open>Closing a position\<close>

lemma close_position_closed:
  "map_of (positions s) pid = Some position \<Longrightarrow> status position = CLOSED \<Longrightarrow>
   close_position env s pid reason = (Inl NotOpen, s)"
  by (simp add: close_position_def)

lemma close_position_refused:
  "map_of (positions s) pid = Some position \<Longrightarrow> status position = OPEN \<Longrightarrow>
   futures_close_position env (symbol position) (position_type position) \<noteq> Returned True \<Longrightarrow>
   \<exists>e. close_position env s pid reason = (Inl e, s)"
  by (auto simp: close_position_def split: option.splits outcome.splits bool.splits)

lemma close_position_success:
  "close_position env s pid reason = (Inr (), s') \<Longrightarrow>
   \<exists>position price. map_of (positions s) pid = Some position \<and> status position = OPEN
     \<and> get_current_price env (symbol position) = Some price
     \<and> futures_close_position env (symbol position) (position_type position) = Returned True
     \<and> positions s' = dict_set (positions s) pid
          (position\<lparr>status := CLOSED, exit_price := price, closed_at := now_iso env,
             pnl := calculate_position_pnl s position price, close_reason := reason\<rparr>)
     \<and> daily_pnl s' = daily_pnl s + calculate_position_pnl s position price"
  by (auto simp: close_position_def Let_def split: option.splits outcome.splits bool.splits if_splits)

lemma close_position_keeps_book:
  assumes "close_position env s pid reason = (r, s')"
  shows "map fst (positions s') = map fst (positions s)"
proof (cases r)
  case (Inl e)
  with assms have "s' = s"
    by (auto simp: close_position_def Let_def
        split: option.splits outcome.splits bool.splits if_splits)
  then show ?thesis by simp
next
  case (Inr u)
  with assms have "close_position env s pid reason = (Inr (), s')" by simp
  from close_position_success [OF this] show ?thesis
    by (auto simp: keys_dict_set_present)
qed

lemma close_position_succeeds:
  assumes "map_of (positions s) pid = Some position" and "status position = OPEN"
    and "get_current_price env (symbol position) = Some price"
    and "futures_close_position env (symbol position) (position_type position) = Returned True"
  shows "close_position env s pid reason
     = (Inr (),
        s\<lparr>positions := dict_set (positions s) pid
             (position\<lparr>status := CLOSED, exit_price := price, closed_at := now_iso env,
                pnl := calculate_position_pnl s position price, close_reason := reason\<rparr>),
          daily_pnl := daily_pnl s + calculate_position_pnl s position price,
          balance := balance s + calculate_position_pnl s position price,
          available_balance := available_balance s + calculate_position_pnl s position price,
          smart_stoploss :=
            map_option (\<lambda>eng. remove_position_stop eng pid) (smart_stoploss s)\<rparr>)"
  using assms by (simp add: close_position_def Let_def)

lemma close_position_after_success:
  assumes "close_position env s pid reason = (Inr (), s')"
  shows "close_position env' s' pid reason' = (Inl NotOpen, s')"
proof -
  from close_position_success [OF assms] obtain position price where
    book: "positions s' = dict_set (positions s) pid
          (position\<lparr>status := CLOSED, exit_price := price, closed_at := now_iso env,
             pnl := calculate_position_pnl s position price, close_reason := reason\<rparr>)"
    by blast
  then show ?thesis
    by (simp add: close_position_def map_of_dict_set_same)
qed

text \<open>
  C8. (1) Closing a position that is already Closed returns the not-open error and
  leaves the whole state as it was. (2) When the gateway refuses the close or fails,
  closing an Open position returns an error and leaves the whole state as it was, so the
  position is still Open and in the book. (3) Closing an Open position that has a price,
  when the gateway executes the close, succeeds: the position stays in the book under
  its id with status Closed, the exit price, the time, the realized P&L and the reason;
  the realized P&L is added to the daily P&L and to both balances, the engine forgets
  the stop of the position, and nothing else changes. Every later close of that
  position, in any market and for any reason, returns the not-open error and changes
  nothing. (4) In general, a close that succeeds leaves the position in the book with
  status Closed, and every later close of it returns the not-open error and changes
  nothing.
\<close>

theorem close_position_closes_once:
  "(\<forall>position. map_of (positions s) pid = Some position \<and> status position = CLOSED \<longrightarrow>
       close_position env s pid reason = (Inl NotOpen, s))
   \<and> (\<forall>position. map_of (positions s) pid = Some position \<and> status position = OPEN
         \<and> futures_close_position env (symbol position) (position_type position) \<noteq> Returned True \<longrightarrow>
       (\<exists>e. close_position env s pid reason = (Inl e, s)))
   \<and> (\<forall>position price. map_of (positions s) pid = Some position \<and> status position = OPEN
         \<and> get_current_price env (symbol position) = Some price
         \<and> futures_close_position env (symbol position) (position_type position) = Returned True \<longrightarrow>
       close_position env s pid reason
         = (Inr (),
            s\<lparr>positions := dict_set (positions s) pid
                 (position\<lparr>status := CLOSED, exit_price := price, closed_at := now_iso env,
                    pnl := calculate_position_pnl s position price, close_reason := reason\<rparr>),
              daily_pnl := daily_pnl s + calculate_position_pnl s position price,
              balance := balance s + calculate_position_pnl s position price,
              available_balance := available_balance s + calculate_position_pnl s position price,
              smart_stoploss :=
                map_option (\<lambda>eng. remove_position_stop eng pid) (smart_stoploss s)\<rparr>)
       \<and> map_of (positions (snd (close_position env s pid reason))) pid
           = Some (position\<lparr>status := CLOSED, exit_price := price, closed_at := now_iso env,
                     pnl := calculate_position_pnl s position price, close_reason := reason\<rparr>)
       \<and> map fst (positions (snd (close_position env s pid reason))) = map fst (positions s)
       \<and> (\<forall>env' reason'.
             close_position env' (snd (close_position env s pid reason)) pid reason'
               = (Inl NotOpen, snd (close_position env s pid reason))))
   \<and> (\<forall>s'. close_position env s pid reason = (Inr (), s') \<longrightarrow>
       (\<exists>closed. map_of (positions s') pid = Some closed \<and> status closed = CLOSED)
       \<and> (\<forall>env' reason'. close_position env' s' pid reason' = (Inl NotOpen, s')))"
proof (intro conjI allI impI)
  fix position
  assume "map_of (positions s) pid = Some position \<and> status position = CLOSED"
  then show "close_position env s pid reason = (Inl NotOpen, s)"
    by (simp add: close_position_closed)
next
  fix position
  assume "map_of (positions s) pid = Some position \<and> status position = OPEN
    \<and> futures_close_position env (symbol position) (position_type position) \<noteq> Returned True"
  then show "\<exists>e. close_position env s pid reason = (Inl e, s)"
    using close_position_refused by blast
next
  fix position price
  assume "map_of (positions s) pid = Some position \<and> status position = OPEN
    \<and> get_current_price env (symbol position) = Some price
    \<and> futures_close_position env (symbol position) (position_type position) = Returned True"
  then show "close_position env s pid reason
         = (Inr (),
            s\<lparr>positions := dict_set (positions s) pid
                 (position\<lparr>status := CLOSED, exit_price := price, closed_at := now_iso env,
                    pnl := calculate_position_pnl s position price, close_reason := reason\<rparr>),
              daily_pnl := daily_pnl s + calculate_position_pnl s position price,
              balance := balance s + calculate_position_pnl s position price,
              available_balance := available_balance s + calculate_position_pnl s position price,
              smart_stoploss :=
                map_option (\<lambda>eng. remove_position_stop eng pid) (smart_stoploss s)\<rparr>)"
    by (simp add: close_position_succeeds)
next
  fix position price
  assume "map_of (positions s) pid = Some position \<and> status position = OPEN
    \<and> get_current_price env (symbol position) = Some price
    \<and> futures_close_position env (symbol position) (position_type position) = Returned True"
  then have "close_position env s pid reason
         = (Inr (),
            s\<lparr>positions := dict_set (positions s) pid
                 (position\<lparr>status := CLOSED, exit_price := price, closed_at := now_iso env,
                    pnl := calculate_position_pnl s position price, close_reason := reason\<rparr>),
              daily_pnl := daily_pnl s + calculate_position_pnl s position price,
              balance := balance s + calculate_position_pnl s position price,
              available_balance := available_balance s + calculate_position_pnl s position price,
              smart_stoploss :=
                map_option (\<lambda>eng. remove_position_stop eng pid) (smart_stoploss s)\<rparr>)"
    by (simp add: close_position_succeeds)
  then show "map_of (positions (snd (close_position env s pid reason))) pid
           = Some (position\<lparr>status := CLOSED, exit_price := price, closed_at := now_iso env,
                     pnl := calculate_position_pnl s position price, close_reason := reason\<rparr>)"
    by (simp add: map_of_dict_set_same)
next
  fix position price
  assume "map_of (positions s) pid = Some position \<and> status position = OPEN
    \<and> get_current_price env (symbol position) = Some price
    \<and> futures_close_position env (symbol position) (position_type position) = Returned True"
  show "map fst (positions (snd (close_position env s pid reason))) = map fst (positions s)"
    using close_position_keeps_book [of env s pid reason] by (metis prod.collapse)
next
  fix position price env' reason'
  assume open_position: "map_of (positions s) pid = Some position \<and> status position = OPEN
    \<and> get_current_price env (symbol position) = Some price
    \<and> futures_close_position env (symbol position) (position_type position) = Returned True"
  then have "fst (close_position env s pid reason) = Inr ()"
    by (simp add: close_position_succeeds)
  then have "close_position env s pid reason = (Inr (), snd (close_position env s pid reason))"
    by (metis prod.collapse)
  then show "close_position env' (snd (close_position env s pid reason)) pid reason'
               = (Inl NotOpen, snd (close_position env s pid reason))"
    by (rule close_position_after_success)
next
  fix s'
  assume ok: "close_position env s pid reason = (Inr (), s')"
  from close_position_success [OF ok] obtain position price where
    book: "positions s' = dict_set (positions s) pid
          (position\<lparr>status := CLOSED, exit_price := price, closed_at := now_iso env,
             pnl := calculate_position_pnl s position price, close_reason := reason\<rparr>)"
    by blast
  then show "\<exists>closed. map_of (positions s') pid = Some closed \<and> status closed = CLOSED"
    by (simp add: map_of_dict_set_same)
next
  fix s' env' reason'
  assume ok: "close_position env s pid reason = (Inr (), s')"
  then show "close_position env' s' pid reason' = (Inl NotOpen, s')"
    by (rule close_position_after_success)
qed

theorem close_position_closes_once_witness:
  "close_position market_95 one_closed_system ''LONG_BTC-USDT-SWAP_1700000000'' ''MANUAL''
     = (Inl NotOpen, one_closed_system)
   \<and> close_position market_95_refusing one_open_system ''LONG_BTC-USDT-SWAP_1700000000'' ''STOP_LOSS''
     = (Inl CloseRefused, one_open_system)
   \<and> close_position market_95_failing one_open_system ''LONG_BTC-USDT-SWAP_1700000000'' ''STOP_LOSS''
     = (Inl CloseFailed, one_open_system)
   \<and> close_position market_95 one_open_system ''LONG_BTC-USDT-SWAP_1700000000'' ''STOP_LOSS''
     = (Inr (),
        one_closed_system\<lparr>daily_pnl := - 254 / 5, balance := 4746 / 5,
          available_balance := 4746 / 5\<rparr>)
   \<and> map_of (positions (snd (close_position market_95 one_open_system
          ''LONG_BTC-USDT-SWAP_1700000000'' ''STOP_LOSS''))) ''LONG_BTC-USDT-SWAP_1700000000''
     = Some closed_long_position
   \<and> status closed_long_position = CLOSED
   \<and> close_position market_95_refusing
       (snd (close_position market_95 one_open_system ''LONG_BTC-USDT-SWAP_1700000000'' ''STOP_LOSS''))
       ''LONG_BTC-USDT-SWAP_1700000000'' ''MANUAL''
     = (Inl NotOpen,
        snd (close_position market_95 one_open_system ''LONG_BTC-USDT-SWAP_1700000000'' ''STOP_LOSS''))"
proof -
  let ?pid = "''LONG_BTC-USDT-SWAP_1700000000''"
  have closed: "map_of (positions one_closed_system) ?pid = Some closed_long_position
      \<and> status closed_long_position = CLOSED"
    by (simp add: example_defs)
  have opened: "map_of (positions one_open_system) ?pid = Some long_position
      \<and> status long_position = OPEN"
    by (simp add: example_defs)
  have refusing: "futures_close_position market_95_refusing (symbol long_position)
      (position_type long_position) \<noteq> Returned True"
    by (simp add: example_defs)
  have failing: "futures_close_position market_95_failing (symbol long_position)
      (position_type long_position) \<noteq> Returned True"
    by (simp add: example_defs)
  have accepting: "get_current_price market_95 (symbol long_position) = Some 95
      \<and> futures_close_position market_95 (symbol long_position) (position_type long_position)
          = Returned True"
    by (simp add: example_defs)
  have a: "close_position market_95 one_closed_system ?pid ''MANUAL'' = (Inl NotOpen, one_closed_system)"
    using close_position_closes_once [of one_closed_system ?pid market_95 "''MANUAL''"] closed
    by blast
  have "\<exists>e. close_position market_95_refusing one_open_system ?pid ''STOP_LOSS'' = (Inl e, one_open_system)"
    using close_position_closes_once [of one_open_system ?pid market_95_refusing "''STOP_LOSS''"]
      opened refusing by blast
  moreover have "fst (close_position market_95_refusing one_open_system ?pid ''STOP_LOSS'') = Inl CloseRefused"
    by (simp add: close_position_def example_defs)
  ultimately have b: "close_position market_95_refusing one_open_system ?pid ''STOP_LOSS''
      = (Inl CloseRefused, one_open_system)"
    by auto
  have "\<exists>e. close_position market_95_failing one_open_system ?pid ''STOP_LOSS'' = (Inl e, one_open_system)"
    using close_position_closes_once [of one_open_system ?pid market_95_failing "''STOP_LOSS''"]
      opened failing by blast
  moreover have "fst (close_position market_95_failing one_open_system ?pid ''STOP_LOSS'') = Inl CloseFailed"
    by (simp add: close_position_def example_defs)
  ultimately have c: "close_position market_95_failing one_open_system ?pid ''STOP_LOSS''
      = (Inl CloseFailed, one_open_system)"
    by auto
  have realized: "calculate_position_pnl one_open_system long_position 95 = - 254 / 5"
    by (simp add: calculate_position_pnl_def example_defs Let_def)
  have closed_position: "long_position\<lparr>status := CLOSED, exit_price := 95,
        closed_at := now_iso market_95, pnl := - 254 / 5,
        close_reason := ''STOP_LOSS''\<rparr> = closed_long_position"
    by (simp add: closed_long_position_def market_95_def)
  have closed_state: "one_open_system
        \<lparr>positions := dict_set (positions one_open_system) ?pid closed_long_position,
         daily_pnl := daily_pnl one_open_system + - 254 / 5,
         balance := balance one_open_system + - 254 / 5,
         available_balance := available_balance one_open_system + - 254 / 5,
         smart_stoploss :=
           map_option (\<lambda>eng. remove_position_stop eng ?pid) (smart_stoploss one_open_system)\<rparr>
      = one_closed_system\<lparr>daily_pnl := - 254 / 5, balance := 4746 / 5,
          available_balance := 4746 / 5\<rparr>"
    by (simp add: one_open_system_def one_closed_system_def default_system_def
        remove_position_stop_def initialize_subsystems_def update_settings_def)
  from close_position_closes_once [of one_open_system ?pid market_95 "''STOP_LOSS''"]
    opened accepting
  have success: "close_position market_95 one_open_system ?pid ''STOP_LOSS''
         = (Inr (),
            one_open_system\<lparr>positions := dict_set (positions one_open_system) ?pid
                 (long_position\<lparr>status := CLOSED, exit_price := 95, closed_at := now_iso market_95,
                    pnl := calculate_position_pnl one_open_system long_position 95,
                    close_reason := ''STOP_LOSS''\<rparr>),
              daily_pnl := daily_pnl one_open_system
                + calculate_position_pnl one_open_system long_position 95,
              balance := balance one_open_system
                + calculate_position_pnl one_open_system long_position 95,
              available_balance := available_balance one_open_system
                + calculate_position_pnl one_open_system long_position 95,
              smart_stoploss :=
                map_option (\<lambda>eng. remove_position_stop eng ?pid) (smart_stoploss one_open_system)\<rparr>)"
    and stored: "map_of (positions (snd (close_position market_95 one_open_system ?pid ''STOP_LOSS''))) ?pid
           = Some (long_position\<lparr>status := CLOSED, exit_price := 95, closed_at := now_iso market_95,
                     pnl := calculate_position_pnl one_open_system long_position 95,
                     close_reason := ''STOP_LOSS''\<rparr>)"
    and f: "close_position market_95_refusing
       (snd (close_position market_95 one_open_system ?pid ''STOP_LOSS'')) ?pid ''MANUAL''
     = (Inl NotOpen, snd (close_position market_95 one_open_system ?pid ''STOP_LOSS''))"
    by blast+
  from success have d: "close_position market_95 one_open_system ?pid ''STOP_LOSS''
     = (Inr (),
        one_closed_system\<lparr>daily_pnl := - 254 / 5, balance := 4746 / 5,
          available_balance := 4746 / 5\<rparr>)"
    by (simp only: realized closed_position closed_state)
  from stored have e: "map_of (positions (snd (close_position market_95 one_open_system ?pid
          ''STOP_LOSS''))) ?pid = Some closed_long_position"
    by (simp only: realized closed_position)
  from closed have g: "status closed_long_position = CLOSED" by simp
  from a b c d e g f show ?thesis by blast
qed

section \<open>The position limit counts the whole book\<close>

lemma fold_dict_del_filter:
  "fold (\<lambda>kv d. dict_del d (fst kv)) xs d = filter (\<lambda>kv. fst kv \<notin> set (map fst xs)) d"
proof (induction xs arbitrary: d)
  case Nil
  then show ?case by simp
next
  case (Cons x xs)
  have "fold (\<lambda>kv d. dict_del d (fst kv)) (x # xs) d
      = fold (\<lambda>kv d. dict_del d (fst kv)) xs (dict_del d (fst x))"
    by simp
  also have "\<dots> = filter (\<lambda>kv. fst kv \<notin> set (map fst xs)) (dict_del d (fst x))"
    by (rule Cons.IH)
  also have "\<dots> = filter (\<lambda>kv. fst kv \<notin> set (map fst (x # xs))) d"
    by (auto simp: dict_del_def intro: filter_cong)
  finally show ?case .
qed

lemma survivors_bounded:
  fixes f :: "'a \<Rightarrow> 'k \<times> 't"
  assumes perm: "mset ranked = mset (map f held)"
    and many: "m \<le> length ranked"
  shows "length (filter (\<lambda>e. fst (f e) \<notin> set (map fst (take m ranked))) held) \<le> length ranked - m"
proof -
  let ?gone = "set (map fst (take m ranked))"
  let ?P = "\<lambda>pair. fst pair \<notin> ?gone"
  have split: "mset ranked = mset (take m ranked) + mset (drop m ranked)"
    by (metis append_take_drop_id mset_append)
  have none: "filter_mset ?P (mset (take m ranked)) = {#}"
    by auto
  have "map f (filter (\<lambda>e. ?P (f e)) held) = filter ?P (map f held)"
    by (simp add: filter_map comp_def)
  then have "mset (map f (filter (\<lambda>e. ?P (f e)) held)) = filter_mset ?P (mset (map f held))"
    by (simp only: mset_filter)
  also have "\<dots> = filter_mset ?P (mset (drop m ranked))"
    using perm [symmetric] split none by simp
  finally have eq: "mset (map f (filter (\<lambda>e. ?P (f e)) held))
      = filter_mset ?P (mset (drop m ranked))" .
  have "length (filter (\<lambda>e. ?P (f e)) held) = size (mset (map f (filter (\<lambda>e. ?P (f e)) held)))"
    by (simp only: size_mset length_map)
  also have "\<dots> = size (filter_mset ?P (mset (drop m ranked)))"
    by (simp only: eq)
  also have "\<dots> \<le> size (mset (drop m ranked))"
    by (rule size_filter_mset_lesseq)
  also have "\<dots> = length ranked - m"
    by simp
  finally show ?thesis .
qed

lemma cleanup_old_data_bound:
  "length (filter (\<lambda>kv. status (snd kv) = CLOSED) (positions (cleanup_old_data s))) \<le> 100"
proof (cases "length (filter (\<lambda>kv. status (snd kv) = CLOSED) (positions s)) > 100")
  case False
  then show ?thesis by (simp add: cleanup_old_data_def Let_def)
next
  case True
  let ?closed = "filter (\<lambda>kv. status (snd kv) = CLOSED) (positions s)"
  let ?f = "\<lambda>kv. (fst kv, closed_at (snd kv))"
  let ?sorted = "sort_key snd (map ?f ?closed)"
  let ?m = "length ?sorted - 100"
  have len: "length ?sorted = length ?closed" by simp
  have perm: "mset ?sorted = mset (map ?f ?closed)" by simp
  have m: "?m \<le> length ?sorted" by simp
  have book: "positions (cleanup_old_data s)
      = filter (\<lambda>kv. fst kv \<notin> set (map fst (take ?m ?sorted))) (positions s)"
    using True by (simp add: cleanup_old_data_def Let_def fold_dict_del_filter)
  have "filter (\<lambda>kv. status (snd kv) = CLOSED) (positions (cleanup_old_data s))
      = filter (\<lambda>e. fst (?f e) \<notin> set (map fst (take ?m ?sorted))) ?closed"
    unfolding book by (simp add: conj_commute)
  then have "length (filter (\<lambda>kv. status (snd kv) = CLOSED) (positions (cleanup_old_data s)))
      \<le> length ?sorted - ?m"
    using survivors_bounded [OF perm m] by simp
  also have "\<dots> = 100" using True len by simp
  finally show ?thesis .
qed

text \<open>
  C10. (1) When the book holds at least \<open>max_positions\<close> positions, Open or Closed,
  \<open>_can_execute_trade\<close> returns false and \<open>_check_risk_limits\<close> returns true,
  whatever the number of Open positions. (2) A close keeps every position in the book:
  the ids in the book are the same before and after \<open>close_position\<close>. (3) The
  periodic clean-up leaves a book with at most 100 Closed positions as it is, and
  (4) leaves at most 100 Closed positions in any book.
\<close>

theorem position_limit_counts_closed_positions:
  "(max_positions s \<le> int (length (positions s)) \<longrightarrow>
      \<not> can_execute_trade env s \<and> check_risk_limits s)
   \<and> map fst (positions (snd (close_position env s pid reason))) = map fst (positions s)
   \<and> (length (filter (\<lambda>kv. status (snd kv) = CLOSED) (positions s)) \<le> 100 \<longrightarrow>
      cleanup_old_data s = s)
   \<and> length (filter (\<lambda>kv. status (snd kv) = CLOSED) (positions (cleanup_old_data s))) \<le> 100"
proof (intro conjI impI)
  assume "max_positions s \<le> int (length (positions s))"
  then show "\<not> can_execute_trade env s"
    by (simp add: can_execute_trade_def)
next
  assume "max_positions s \<le> int (length (positions s))"
  then show "check_risk_limits s"
    by (simp add: check_risk_limits_def Let_def)
next
  show "map fst (positions (snd (close_position env s pid reason))) = map fst (positions s)"
    using close_position_keeps_book [of env s pid reason] by (metis prod.collapse)
next
  assume "length (filter (\<lambda>kv. status (snd kv) = CLOSED) (positions s)) \<le> 100"
  then show "cleanup_old_data s = s"
    by (simp add: cleanup_old_data_def Let_def)
next
  show "length (filter (\<lambda>kv. status (snd kv) = CLOSED) (positions (cleanup_old_data s))) \<le> 100"
    by (rule cleanup_old_data_bound)
qed

theorem position_limit_counts_closed_positions_witness:
  "max_positions one_closed_system \<le> int (length (positions one_closed_system))
   \<and> get_open_positions one_closed_system = []
   \<and> \<not> can_execute_trade market_95 one_closed_system
   \<and> check_risk_limits one_closed_system
   \<and> length (filter (\<lambda>kv. status (snd kv) = CLOSED) (positions one_closed_system)) \<le> 100
   \<and> cleanup_old_data one_closed_system = one_closed_system"
proof -
  have full: "max_positions one_closed_system \<le> int (length (positions one_closed_system))"
    by (simp add: example_defs)
  have few: "length (filter (\<lambda>kv. status (snd kv) = CLOSED) (positions one_closed_system)) \<le> 100"
    by (simp add: example_defs)
  have none_open: "get_open_positions one_closed_system = []"
    by (simp add: get_open_positions_def example_defs)
  from position_limit_counts_closed_positions
    [of one_closed_system market_95 "''LONG_BTC-USDT-SWAP_1700000000''" "''MANUAL''"] full few
  have "\<not> can_execute_trade market_95 one_closed_system \<and> check_risk_limits one_closed_system
    \<and> cleanup_old_data one_closed_system = one_closed_system"
    by blast
  with full few none_open show ?thesis by simp
qed

section \<open>Claims about the control loop\<close>

lemma keys_dict_set_member:
  "k \<in> set (map fst d) \<Longrightarrow> map fst (dict_set d k v) = map fst d"
  by (simp add: map_fst_dict_set)

lemma length_dict_del: "length (dict_del d k) \<le> length d"
  by (simp add: dict_del_def)

lemma update_account_info_book:
  "map fst (positions (update_account_info env s)) = map fst (positions s)"
  "max_positions (update_account_info env s) = max_positions s"
  by (auto simp: update_account_info_def update_positions_pnl_def check_daily_reset_def Let_def
      comp_def split: outcome.splits option.splits)

lemma update_account_info_status:
  "map (\<lambda>item. (fst item, status (snd item), stop_loss (snd item)))
       (positions (update_account_info env s))
     = map (\<lambda>item. (fst item, status (snd item), stop_loss (snd item))) (positions s)"
  by (auto simp: update_account_info_def update_positions_pnl_def check_daily_reset_def Let_def
      comp_def reprice_def split: outcome.splits option.splits)

lemma check_one_position_book:
  assumes "fst item \<in> set (map fst (positions (fst acc)))"
  shows "map fst (positions (fst (check_one_position env item acc))) = map fst (positions (fst acc))"
    and "max_positions (fst (check_one_position env item acc)) = max_positions (fst acc)"
  using assms
  by (auto simp: check_one_position_def Let_def keys_dict_set_member split: option.splits)

lemma check_all_positions_book:
  assumes "set (map fst items) \<subseteq> set (map fst (positions (fst acc)))"
  shows "map fst (positions (fst (foldl (\<lambda>acc item. check_one_position env item acc) acc items)))
           = map fst (positions (fst acc))
    \<and> max_positions (fst (foldl (\<lambda>acc item. check_one_position env item acc) acc items))
           = max_positions (fst acc)"
  using assms
proof (induction items arbitrary: acc)
  case Nil
  then show ?case by simp
next
  case (Cons item items)
  have here: "fst item \<in> set (map fst (positions (fst acc)))"
    using Cons.prems by simp
  have keys: "map fst (positions (fst (check_one_position env item acc))) = map fst (positions (fst acc))"
    and limit: "max_positions (fst (check_one_position env item acc)) = max_positions (fst acc)"
    using check_one_position_book [OF here] by simp_all
  have "set (map fst items) \<subseteq> set (map fst (positions (fst (check_one_position env item acc))))"
    using Cons.prems keys by simp
  from Cons.IH [OF this] keys limit show ?case by simp
qed

lemma close_position_limit:
  "max_positions (snd (close_position env s pid reason)) = max_positions s"
  by (auto simp: close_position_def Let_def split: option.splits outcome.splits bool.splits)

lemma close_all_book:
  "map fst (positions (foldl (\<lambda>s' pid. snd (close_position env s' pid reason)) s pids))
     = map fst (positions s)
   \<and> max_positions (foldl (\<lambda>s' pid. snd (close_position env s' pid reason)) s pids)
     = max_positions s"
proof (induction pids arbitrary: s)
  case Nil
  then show ?case by simp
next
  case (Cons pid pids)
  have "map fst (positions (snd (close_position env s pid reason))) = map fst (positions s)"
    using close_position_keeps_book [of env s pid reason] by (metis prod.collapse)
  with Cons.IH [of "snd (close_position env s pid reason)"] close_position_limit [of env s pid reason]
  show ?case by simp
qed

lemma check_position_stops_book:
  "map fst (positions (check_position_stops env s)) = map fst (positions s)"
  "max_positions (check_position_stops env s) = max_positions s"
  using check_all_positions_book [of "positions s" "(s, [])" env]
    close_all_book [where env = env and reason = "''STOP_LOSS''"]
  by (simp_all add: check_position_stops_def Let_def)


lemma can_execute_trade_room:
  "can_execute_trade env s \<Longrightarrow> int (length (positions s)) < max_positions s"
  by (simp add: can_execute_trade_def split: if_splits)

lemma open_position_book:
  "length (positions (snd (open_position ptype env s symb price q))) \<le> Suc (length (positions s))"
  "max_positions (snd (open_position ptype env s symb price q)) = max_positions s"
  using length_dict_set_le [of "positions s"]
  by (auto simp: open_position_def Let_def split: option.splits outcome.splits)

lemma execute_futures_step:
  assumes "can_execute_trade env s"
  shows "\<exists>s''. execute_futures_pairs env (symb # rest) s = execute_futures_pairs env rest s''
           \<and> max_positions s'' = max_positions s
           \<and> int (length (positions s'')) \<le> max_positions s"
proof -
  have room: "int (length (positions s)) < max_positions s"
    using assms by (rule can_execute_trade_room)
  have stay: "execute_futures_pairs env rest s = execute_futures_pairs env rest s
           \<and> max_positions s = max_positions s
           \<and> int (length (positions s)) \<le> max_positions s"
    using room by simp
  show ?thesis
  proof (cases "fst (trading_signal env symb)")
    case HOLD
    then have "execute_futures_pairs env (symb # rest) s = execute_futures_pairs env rest s"
      using assms by simp
    with stay show ?thesis by metis
  next
    case (Enter ptype)
    show ?thesis
    proof (cases "get_current_price env symb")
      case None
      then have "execute_futures_pairs env (symb # rest) s = execute_futures_pairs env rest s"
        using assms Enter by simp
      with stay show ?thesis by metis
    next
      case (Some price)
      show ?thesis
      proof (cases "price = 0")
        case True
        then have "execute_futures_pairs env (symb # rest) s = execute_futures_pairs env rest s"
          using assms Enter Some by simp
        with stay show ?thesis by metis
      next
        case False
        obtain r s' where opened: "open_position ptype env s symb price None = (r, s')"
          by (cases "open_position ptype env s symb price None")
        then have s': "s' = snd (open_position ptype env s symb price None)" by simp
        have limit: "max_positions s' = max_positions s"
          and size: "int (length (positions s')) \<le> max_positions s"
          using open_position_book [of ptype env s symb price None] room unfolding s' by simp_all
        show ?thesis
        proof (cases r)
          case (Inl err)
          then have "execute_futures_pairs env (symb # rest) s = execute_futures_pairs env rest s'"
            using assms Enter Some False opened by simp
          with limit size show ?thesis by metis
        next
          case (Inr ok)
          let ?s'' = "s'\<lparr>last_trade_time := Some (now env),
                          total_trades_today := total_trades_today s' + 1\<rparr>"
          have "execute_futures_pairs env (symb # rest) s = execute_futures_pairs env rest ?s''"
            using assms Enter Some False opened Inr by simp
          moreover have "max_positions ?s'' = max_positions s"
            and "int (length (positions ?s'')) \<le> max_positions s"
            using limit size by simp_all
          ultimately show ?thesis by metis
        qed
      qed
    qed
  qed
qed

lemma execute_futures_pairs_book:
  "int (length (positions (execute_futures_pairs env pairs s)))
     \<le> max (int (length (positions s))) (max_positions s)
   \<and> max_positions (execute_futures_pairs env pairs s) = max_positions s"
proof (induction pairs arbitrary: s)
  case Nil
  then show ?case by simp
next
  case (Cons symb rest)
  show ?case
  proof (cases "can_execute_trade env s")
    case False
    then show ?thesis by simp
  next
    case True
    from execute_futures_step [OF True, of symb rest] obtain s'' where
      step: "execute_futures_pairs env (symb # rest) s = execute_futures_pairs env rest s''"
      and limit: "max_positions s'' = max_positions s"
      and size: "int (length (positions s'')) \<le> max_positions s"
      by blast
    from Cons.IH [of s''] limit size show ?thesis
      unfolding step by auto
  qed
qed

lemma spot_buy_book:
  "positions (snd (spot_buy env s symb price q)) = positions s"
  "max_positions (snd (spot_buy env s symb price q)) = max_positions s"
  by (auto simp: spot_buy_def Let_def split: option.splits outcome.splits bool.splits)

lemma spot_sell_book:
  "positions (snd (spot_sell env s symb price q)) = positions s"
  "max_positions (snd (spot_sell env s symb price q)) = max_positions s"
  by (auto simp: spot_sell_def Let_def split: option.splits outcome.splits bool.splits)

lemma traded_book:
  "positions (traded env r) = positions (snd r)"
  "max_positions (traded env r) = max_positions (snd r)"
  by (simp_all add: traded_def)

lemma execute_spot_pairs_book:
  "positions (execute_spot_pairs env pairs s) = positions s
   \<and> max_positions (execute_spot_pairs env pairs s) = max_positions s"
proof (induction pairs arbitrary: s)
  case Nil
  then show ?case by simp
next
  case (Cons symb rest)
  show ?case
    by (auto simp: Cons.IH traded_book spot_buy_book spot_sell_book
        split: prod.splits signal.splits position_type.splits option.splits)
qed

lemma execute_trading_strategy_book:
  "int (length (positions (execute_trading_strategy env s)))
     \<le> max (int (length (positions s))) (max_positions s)"
  "max_positions (execute_trading_strategy env s) = max_positions s"
  using execute_futures_pairs_book [of env "take 3 (futures_pairs s)" s]
  by (auto simp: execute_trading_strategy_def execute_futures_strategy_def
      execute_spot_strategy_def execute_spot_pairs_book Let_def)

lemma fold_dict_del_length:
  "length (fold (\<lambda>kv d. dict_del d (fst kv)) xs d) \<le> length d"
proof (induction xs arbitrary: d)
  case Nil
  then show ?case by simp
next
  case (Cons x xs)
  have "length (fold (\<lambda>kv d. dict_del d (fst kv)) xs (dict_del d (fst x))) \<le> length (dict_del d (fst x))"
    by (rule Cons.IH)
  also have "\<dots> \<le> length d" by (rule length_dict_del)
  finally show ?case by simp
qed

lemma cleanup_old_data_book:
  "length (positions (cleanup_old_data s)) \<le> length (positions s)"
  "max_positions (cleanup_old_data s) = max_positions s"
  using fold_dict_del_length [of _ "positions s"]
  by (auto simp: cleanup_old_data_def Let_def)

lemma stop_auto_trading_book:
  "positions (stop_auto_trading s) = positions s"
  "max_positions (stop_auto_trading s) = max_positions s"
  by (simp_all add: stop_auto_trading_def)

lemma loop_iteration_unfold:
  "loop_iteration env (n, s) =
     (let s1 = (if Suc n mod 10 = 0 then update_account_info env s else s)
      in if check_risk_limits s1 then (Suc n, stop_auto_trading s1)
         else (Suc n,
               let s2 = check_position_stops env s1;
                   s3 = (if can_execute_trade env s2 then execute_trading_strategy env s2 else s2)
               in if Suc n mod 30 = 0 then cleanup_old_data s3 else s3))"
  by (simp add: loop_iteration_def Let_def)

lemma loop_iteration_book:
  "int (length (positions (snd (loop_iteration env (n, s)))))
     \<le> max (int (length (positions s))) (max_positions s)
   \<and> max_positions (snd (loop_iteration env (n, s))) = max_positions s"
proof -
  define s1 where "s1 = (if Suc n mod 10 = 0 then update_account_info env s else s)"
  define s2 where "s2 = check_position_stops env s1"
  define s3 where "s3 = (if can_execute_trade env s2 then execute_trading_strategy env s2 else s2)"
  define s4 where "s4 = (if Suc n mod 30 = 0 then cleanup_old_data s3 else s3)"
  have "map fst (positions s1) = map fst (positions s)"
    unfolding s1_def by (simp add: update_account_info_book)
  then have l1: "length (positions s1) = length (positions s)"
    by (rule map_eq_imp_length_eq)
  have m1: "max_positions s1 = max_positions s"
    unfolding s1_def by (simp add: update_account_info_book)
  have "map fst (positions s2) = map fst (positions s1)"
    unfolding s2_def by (rule check_position_stops_book)
  then have "length (positions s2) = length (positions s1)"
    by (rule map_eq_imp_length_eq)
  with l1 have l2: "length (positions s2) = length (positions s)" by simp
  have m2: "max_positions s2 = max_positions s"
    unfolding s2_def using m1 by (simp add: check_position_stops_book)
  have l3: "int (length (positions s3)) \<le> max (int (length (positions s))) (max_positions s)"
    unfolding s3_def using execute_trading_strategy_book(1) [of env s2] l2 m2 by simp
  have m3: "max_positions s3 = max_positions s"
    unfolding s3_def using m2 by (simp add: execute_trading_strategy_book)
  have "length (positions s4) \<le> length (positions s3)"
    unfolding s4_def using cleanup_old_data_book(1) [of s3] by simp
  with l3 have l4: "int (length (positions s4)) \<le> max (int (length (positions s))) (max_positions s)"
    by linarith
  have m4: "max_positions s4 = max_positions s"
    unfolding s4_def using m3 by (simp add: cleanup_old_data_book)
  have run: "snd (loop_iteration env (n, s)) = (if check_risk_limits s1 then stop_auto_trading s1 else s4)"
    unfolding loop_iteration_unfold s1_def s2_def s3_def s4_def by (simp add: Let_def)
  show ?thesis
    unfolding run using l1 m1 l4 m4 by (simp add: stop_auto_trading_book)
qed


lemma loop_ended: "\<not> auto_trading (snd state) \<Longrightarrow> auto_trading_loop ticks state = state"
  by (cases ticks) simp_all

lemma update_account_info_auto_trading:
  "auto_trading (update_account_info env s) = auto_trading s"
  by (auto simp: update_account_info_def update_positions_pnl_def check_daily_reset_def Let_def
      split: outcome.splits option.splits)

lemma loop_ends_on_risk_limit:
  assumes "auto_trading s"
    and "check_risk_limits (if Suc n mod 10 = 0 then update_account_info env s else s)"
  shows "auto_trading_loop (env # ticks) (n, s)
      = (Suc n, (if Suc n mod 10 = 0 then update_account_info env s else s)\<lparr>auto_trading := False\<rparr>)"
proof -
  define s1 where "s1 = (if Suc n mod 10 = 0 then update_account_info env s else s)"
  have on: "auto_trading s1"
    unfolding s1_def using assms(1) by (simp add: update_account_info_auto_trading)
  have step: "loop_iteration env (n, s) = (Suc n, s1\<lparr>auto_trading := False\<rparr>)"
    unfolding loop_iteration_unfold using assms(2) on
    by (simp add: s1_def [symmetric] stop_auto_trading_def Let_def)
  have "auto_trading_loop (env # ticks) (n, s) = auto_trading_loop ticks (Suc n, s1\<lparr>auto_trading := False\<rparr>)"
    using assms(1) step by simp
  also have "\<dots> = (Suc n, s1\<lparr>auto_trading := False\<rparr>)"
    by (rule loop_ended) simp
  finally show ?thesis unfolding s1_def .
qed

text \<open>
  C2, as stated, fails. In scenario D (a realized loss of 6 on a day started with 100, limit
  5 percent) the manager holds an Open Long with its stop at 98 while the market quotes
  95, so the position should be closed. The first pass of the loop finds the risk limit
  reached, stops auto trading and skips the rest of the pass; the loop then ends. After
  three ticks the position is still Open and exactly as before: it was not evaluated and
  not closed.
\<close>

theorem risk_limit_stops_position_management:
  "check_risk_limits scenario_d_system
   \<and> should_close_position scenario_d_system long_position 95
   \<and> auto_trading_loop [market_95, market_95, market_95] (0, scenario_d_system)
       = (1, scenario_d_system\<lparr>auto_trading := False\<rparr>)
   \<and> get_open_positions (scenario_d_system\<lparr>auto_trading := False\<rparr>) = [long_position]"
  by (simp add: check_risk_limits_def should_close_position_def loop_iteration_def
      stop_auto_trading_def get_open_positions_def scenario_d_system_def default_system_def
      long_position_def py_lt_def py_le_def Let_def)

text \<open>
  The account refresh of every tenth pass runs before the risk check. On the tenth pass
  of scenario D, on the day of the last reset, it fetches the price of the Open Long and
  sets its P&L to -50.8; then the risk limit is found reached and the loop ends, with
  the position still Open and its stop still at 98.
\<close>

lemma tenth_pass_refreshes_before_risk_check:
  "auto_trading_loop [market_95, market_95] (9, scenario_d_system\<lparr>last_reset_date := Some 19676\<rparr>)
     = (10, scenario_d_system
              \<lparr>last_reset_date := Some 19676, auto_trading := False,
               positions := [(''LONG_BTC-USDT-SWAP_1700000000'', long_position\<lparr>pnl := - 254 / 5\<rparr>)]\<rparr>)"
  by (simp add: loop_iteration_def update_account_info_def check_daily_reset_def
      update_positions_pnl_def reprice_def calculate_position_pnl_def check_risk_limits_def
      stop_auto_trading_def scenario_d_system_def default_system_def long_position_def
      market_95_def Let_def)

lemma update_account_info_positions:
  "map (\<lambda>item. (fst item, (snd item)\<lparr>pnl := 0\<rparr>)) (positions (update_account_info env s))
     = map (\<lambda>item. (fst item, (snd item)\<lparr>pnl := 0\<rparr>)) (positions s)"
  "smart_stoploss (update_account_info env s) = smart_stoploss s"
  by (auto simp: update_account_info_def update_positions_pnl_def check_daily_reset_def Let_def
      comp_def reprice_def split: outcome.splits option.splits)

text \<open>
  C2, amended. When \<open>_check_risk_limits\<close> is true on a tick (the daily-loss limit is
  reached, the day's start balance is zero, or the book holds \<open>max_positions\<close>
  positions), the control loop switches auto trading off on that tick and ends, whatever
  the markets of the later ticks are. \<open>_check_position_stops\<close> and the strategy are
  not run: no position is opened, none is closed, no stop is changed and the stop engine
  is left as it was, so an Open position stays Open even when its stop is crossed. On a
  pass that is not a tenth pass nothing but the auto-trading flag changes. On a tenth
  pass the refresh of the account has run before the check (balances, daily reset, a
  price fetch and a new P&L for each Open position), and the check is made on the
  refreshed state; of a position it changes nothing but the P&L.
\<close>

theorem risk_limit_ends_loop:
  assumes "auto_trading s"
    and "check_risk_limits (if Suc n mod 10 = 0 then update_account_info env s else s)"
  shows "auto_trading_loop (env # ticks) (n, s)
      = (Suc n, (if Suc n mod 10 = 0 then update_account_info env s else s)\<lparr>auto_trading := False\<rparr>)
    \<and> map (\<lambda>item. (fst item, status (snd item), stop_loss (snd item)))
          (positions (snd (auto_trading_loop (env # ticks) (n, s))))
      = map (\<lambda>item. (fst item, status (snd item), stop_loss (snd item))) (positions s)
    \<and> map (\<lambda>item. (fst item, (snd item)\<lparr>pnl := 0\<rparr>))
          (positions (snd (auto_trading_loop (env # ticks) (n, s))))
      = map (\<lambda>item. (fst item, (snd item)\<lparr>pnl := 0\<rparr>)) (positions s)
    \<and> smart_stoploss (snd (auto_trading_loop (env # ticks) (n, s))) = smart_stoploss s
    \<and> (Suc n mod 10 \<noteq> 0 \<longrightarrow>
          snd (auto_trading_loop (env # ticks) (n, s)) = s\<lparr>auto_trading := False\<rparr>)"
  using loop_ends_on_risk_limit [OF assms, of ticks]
  by (simp add: update_account_info_status update_account_info_positions)

theorem risk_limit_ends_loop_witness:
  "auto_trading scenario_d_system
   \<and> check_risk_limits (if Suc 0 mod 10 = 0 then update_account_info market_95 scenario_d_system
                          else scenario_d_system)
   \<and> Suc 0 mod 10 \<noteq> 0
   \<and> auto_trading_loop [market_95, market_95, market_95] (0, scenario_d_system)
       = (Suc 0, scenario_d_system\<lparr>auto_trading := False\<rparr>)
   \<and> snd (auto_trading_loop [market_95, market_95, market_95] (0, scenario_d_system))
       = scenario_d_system\<lparr>auto_trading := False\<rparr>
   \<and> map (\<lambda>item. status (snd item))
         (positions (snd (auto_trading_loop [market_95, market_95, market_95] (0, scenario_d_system))))
       = [OPEN]
   \<and> auto_trading (scenario_d_system\<lparr>last_reset_date := Some 19676\<rparr>)
   \<and> check_risk_limits
        (if Suc 9 mod 10 = 0
         then update_account_info market_95 (scenario_d_system\<lparr>last_reset_date := Some 19676\<rparr>)
         else scenario_d_system\<lparr>last_reset_date := Some 19676\<rparr>)
   \<and> map (\<lambda>item. (fst item, status (snd item), stop_loss (snd item)))
         (positions (snd (auto_trading_loop [market_95, market_95]
            (9, scenario_d_system\<lparr>last_reset_date := Some 19676\<rparr>))))
       = [(''LONG_BTC-USDT-SWAP_1700000000'', OPEN, Num 98)]"
proof -
  have on: "auto_trading scenario_d_system"
    by (simp add: scenario_d_system_def default_system_def)
  have limit: "check_risk_limits (if Suc 0 mod 10 = 0
      then update_account_info market_95 scenario_d_system else scenario_d_system)"
    by (simp add: check_risk_limits_def scenario_d_system_def default_system_def Let_def)
  have first_pass: "Suc 0 mod 10 \<noteq> 0" by simp
  from risk_limit_ends_loop [OF on limit, of "[market_95, market_95]"]
  have run: "auto_trading_loop [market_95, market_95, market_95] (0, scenario_d_system)
       = (Suc 0, scenario_d_system\<lparr>auto_trading := False\<rparr>)"
    and state: "snd (auto_trading_loop [market_95, market_95, market_95] (0, scenario_d_system))
       = scenario_d_system\<lparr>auto_trading := False\<rparr>"
    by simp_all
  have "map (\<lambda>item. status (snd item)) (positions (scenario_d_system\<lparr>auto_trading := False\<rparr>)) = [OPEN]"
    by (simp add: scenario_d_system_def default_system_def long_position_def)
  with state have statuses: "map (\<lambda>item. status (snd item))
         (positions (snd (auto_trading_loop [market_95, market_95, market_95] (0, scenario_d_system))))
       = [OPEN]"
    by simp
  have on10: "auto_trading (scenario_d_system\<lparr>last_reset_date := Some 19676\<rparr>)"
    by (simp add: scenario_d_system_def default_system_def)
  have limit10: "check_risk_limits
        (if Suc 9 mod 10 = 0
         then update_account_info market_95 (scenario_d_system\<lparr>last_reset_date := Some 19676\<rparr>)
         else scenario_d_system\<lparr>last_reset_date := Some 19676\<rparr>)"
    by (simp add: update_account_info_def check_daily_reset_def update_positions_pnl_def
        check_risk_limits_def scenario_d_system_def default_system_def market_95_def Let_def)
  have book: "map (\<lambda>item. (fst item, status (snd item), stop_loss (snd item)))
      (positions (scenario_d_system\<lparr>last_reset_date := Some 19676\<rparr>))
      = [(''LONG_BTC-USDT-SWAP_1700000000'', OPEN, Num 98)]"
    by (simp add: scenario_d_system_def default_system_def long_position_def)
  from risk_limit_ends_loop [OF on10 limit10, of "[market_95]"]
  have "map (\<lambda>item. (fst item, status (snd item), stop_loss (snd item)))
         (positions (snd (auto_trading_loop [market_95, market_95]
            (9, scenario_d_system\<lparr>last_reset_date := Some 19676\<rparr>))))
       = map (\<lambda>item. (fst item, status (snd item), stop_loss (snd item)))
           (positions (scenario_d_system\<lparr>last_reset_date := Some 19676\<rparr>))"
    by blast
  with book have tenth: "map (\<lambda>item. (fst item, status (snd item), stop_loss (snd item)))
         (positions (snd (auto_trading_loop [market_95, market_95]
            (9, scenario_d_system\<lparr>last_reset_date := Some 19676\<rparr>))))
       = [(''LONG_BTC-USDT-SWAP_1700000000'', OPEN, Num 98)]"
    by (simp only:)
  from on limit first_pass run state statuses on10 limit10 tenth show ?thesis by blast
qed

text \<open>
  C3, as stated, fails. With \<open>max_positions = 1\<close> and one Open position, a direct
  call of \<open>open_long_position\<close> for another instrument succeeds and leaves two Open
  positions: the operation never looks at the limit.
\<close>

theorem direct_open_exceeds_limit:
  "fst (open_long_position market_95 one_open_system ''ETH-USDT-SWAP'' 95 None) = Inr ()
   \<and> map (\<lambda>item. (fst item, status (snd item)))
        (positions (snd (open_long_position market_95 one_open_system ''ETH-USDT-SWAP'' 95 None)))
       = [(''LONG_BTC-USDT-SWAP_1700000000'', OPEN), (''LONG_ETH-USDT-SWAP_1700006400'', OPEN)]
   \<and> max_positions (snd (open_long_position market_95 one_open_system ''ETH-USDT-SWAP'' 95 None)) = 1
   \<and> \<not> int (length (get_open_positions
            (snd (open_long_position market_95 one_open_system ''ETH-USDT-SWAP'' 95 None))))
        \<le> max_positions (snd (open_long_position market_95 one_open_system ''ETH-USDT-SWAP'' 95 None))"
proof -
  have size: "calculate_position_size one_open_system 95 = 4 / 19"
    by (simp add: calculate_position_size_def one_open_system_def default_system_def Let_def)
  have pid: "new_position_id LONG ''ETH-USDT-SWAP'' (now market_95) = ''LONG_ETH-USDT-SWAP_1700006400''"
    by (simp add: new_position_id_def market_95_def digit_char_def side_name_def)
  have gateway: "futures_set_leverage market_95 ''ETH-USDT-SWAP'' (default_leverage one_open_system)
        = Returned True"
    "futures_create_order market_95 ''ETH-USDT-SWAP'' LONG (4 / 19) (default_leverage one_open_system)
        = Returned (Some ''2'')"
    by (simp_all add: market_95_def)
  have book: "positions one_open_system = [(''LONG_BTC-USDT-SWAP_1700000000'', long_position)]"
    and limit: "max_positions one_open_system = 1"
    by (simp_all add: one_open_system_def)
  have held: "status long_position = OPEN" by (simp add: long_position_def)
  show ?thesis
    unfolding open_long_position_def open_position_def Let_def
    by (simp add: size pid gateway book limit held get_open_positions_def)
qed

lemma open_positions_in_book: "length (get_open_positions s) \<le> length (positions s)"
  by (simp add: get_open_positions_def order.trans [OF length_filter_le])

lemma auto_trading_loop_book:
  "int (length (positions (snd (auto_trading_loop ticks (n, s)))))
     \<le> max (int (length (positions s))) (max_positions s)
   \<and> max_positions (snd (auto_trading_loop ticks (n, s))) = max_positions s"
proof (induction ticks arbitrary: n s)
  case Nil
  then show ?case by simp
next
  case (Cons env ticks)
  show ?case
  proof (cases "auto_trading s")
    case False
    then show ?thesis by simp
  next
    case True
    obtain n' s' where step: "loop_iteration env (n, s) = (n', s')"
      by (cases "loop_iteration env (n, s)")
    have one: "int (length (positions s')) \<le> max (int (length (positions s))) (max_positions s)"
      and limit: "max_positions s' = max_positions s"
      using loop_iteration_book [of env n s] step by simp_all
    from Cons.IH [of n' s'] one limit
    have "int (length (positions (snd (auto_trading_loop ticks (n', s')))))
        \<le> max (int (length (positions s))) (max_positions s)
      \<and> max_positions (snd (auto_trading_loop ticks (n', s'))) = max_positions s"
      by auto
    with True step show ?thesis by simp
  qed
qed

text \<open>
  C3, amended. Through the control loop the limit is kept: after any number of ticks,
  from any state, the number of Open positions is at most the larger of
  \<open>max_positions\<close> and the size of the book at the start, so it never exceeds
  \<open>max_positions\<close> when the book started within the limit; \<open>max_positions\<close>
  itself is never changed. In particular, while the book holds \<open>max_positions\<close>
  positions or more, the loop adds no position, whatever the signals are. The direct
  operations \<open>open_long_position\<close> and \<open>open_short_position\<close> are not covered: they
  do not check the limit.
\<close>

theorem loop_keeps_position_limit:
  "max_positions (snd (auto_trading_loop ticks (n, s))) = max_positions s
   \<and> int (length (get_open_positions (snd (auto_trading_loop ticks (n, s)))))
       \<le> max (int (length (positions s))) (max_positions s)
   \<and> (int (length (positions s)) \<le> max_positions s \<longrightarrow>
        int (length (get_open_positions (snd (auto_trading_loop ticks (n, s))))) \<le> max_positions s)
   \<and> (auto_trading s \<and> max_positions s \<le> int (length (positions s)) \<longrightarrow>
        map fst (positions (snd (auto_trading_loop (env # ticks) (n, s)))) = map fst (positions s))"
proof (intro conjI impI)
  show "max_positions (snd (auto_trading_loop ticks (n, s))) = max_positions s"
    using auto_trading_loop_book [of ticks n s] by simp
  show bound: "int (length (get_open_positions (snd (auto_trading_loop ticks (n, s)))))
       \<le> max (int (length (positions s))) (max_positions s)"
    using auto_trading_loop_book [of ticks n s]
      open_positions_in_book [of "snd (auto_trading_loop ticks (n, s))"]
    by linarith
  show "int (length (get_open_positions (snd (auto_trading_loop ticks (n, s))))) \<le> max_positions s"
    if "int (length (positions s)) \<le> max_positions s"
    using bound that by simp
  show "map fst (positions (snd (auto_trading_loop (env # ticks) (n, s)))) = map fst (positions s)"
    if full: "auto_trading s \<and> max_positions s \<le> int (length (positions s))"
  proof -
    define s1 where "s1 = (if Suc n mod 10 = 0 then update_account_info env s else s)"
    have keys: "map fst (positions s1) = map fst (positions s)"
      and limit: "max_positions s1 = max_positions s"
      unfolding s1_def by (simp_all add: update_account_info_book)
    from keys have "length (positions s1) = length (positions s)"
      by (rule map_eq_imp_length_eq)
    with limit full have "check_risk_limits s1"
      by (simp add: check_risk_limits_def Let_def)
    then have "check_risk_limits (if Suc n mod 10 = 0 then update_account_info env s else s)"
      unfolding s1_def .
    from loop_ends_on_risk_limit [OF _ this, of ticks] full keys
    show ?thesis unfolding s1_def by simp
  qed
qed

theorem loop_keeps_position_limit_witness:
  "int (length (positions one_open_trading_system)) \<le> max_positions one_open_trading_system
   \<and> auto_trading one_open_trading_system
   \<and> max_positions one_open_trading_system \<le> int (length (positions one_open_trading_system))
   \<and> fst (trading_signal market_95 ''ETH-USDT-SWAP'') = Enter LONG
   \<and> int (length (get_open_positions
          (snd (auto_trading_loop [market_95] (0, one_open_trading_system))))) \<le> 1
   \<and> map fst (positions (snd (auto_trading_loop [market_95, market_95] (0, one_open_trading_system))))
       = [''LONG_BTC-USDT-SWAP_1700000000'']"
proof -
  have size: "int (length (positions one_open_trading_system)) \<le> max_positions one_open_trading_system"
    and full: "auto_trading one_open_trading_system
      \<and> max_positions one_open_trading_system \<le> int (length (positions one_open_trading_system))"
    and limit: "max_positions one_open_trading_system = 1"
    and book: "map fst (positions one_open_trading_system) = [''LONG_BTC-USDT-SWAP_1700000000'']"
    by (simp_all add: one_open_trading_system_def one_open_system_def)
  have signal: "fst (trading_signal market_95 ''ETH-USDT-SWAP'') = Enter LONG"
    by (simp add: market_95_def)
  from loop_keeps_position_limit [of "[market_95]" 0 one_open_trading_system market_95]
    size full limit book
  have "int (length (get_open_positions
          (snd (auto_trading_loop [market_95] (0, one_open_trading_system))))) \<le> 1
    \<and> map fst (positions (snd (auto_trading_loop [market_95, market_95] (0, one_open_trading_system))))
       = [''LONG_BTC-USDT-SWAP_1700000000'']"
    by simp
  with size full signal show ?thesis by simp
qed

end
